theory Spec2Isabelle
  imports Main "HOL-Library.Word"
begin

unbundle bit_operations_syntax

section \<open>Data layout (qadataswap_core.h)\<close>

text \<open>
  The arena is compiled for a 64-bit target: \<open>size_t\<close> and \<open>uint64_t\<close> are 64-bit words
  whose arithmetic wraps around, \<open>uint32_t\<close> is a 32-bit word.
\<close>

type_synonym u64 = "64 word"
type_synonym u32 = "32 word"
type_synonym byte = "8 word"

definition CACHE_LINE_SIZE :: u64 where
  "CACHE_LINE_SIZE = 64"

definition MAGIC_NUMBER :: u32 where
  "MAGIC_NUMBER = 0x51444153"

definition VERSION :: u32 where
  "VERSION = 1"

text \<open>
  \<open>sizeof(SharedMemoryHeader)\<close> and \<open>sizeof(SharedMemoryHeader::BufferState)\<close> are fixed
  by the compiler (the structs are declared under \<open>#pragma pack(1)\<close> with
  \<open>alignas(CACHE_LINE_SIZE)\<close>). The functions below take them as a parameter.
\<close>

record abi =
  sizeof_SharedMemoryHeader :: u64
  sizeof_BufferState :: u64

text \<open>One entry of the flexible array \<open>buffer_states[]\<close>.\<close>

record BufferState =
  data_size :: u64
  ready :: bool
  timestamp :: u64

text \<open>
  The control block at offset 0 of the region. The two \<open>char[64]\<close> fields hold a
  C string; the model keeps the characters before the terminating NUL. The flexible array
  member \<open>buffer_states[]\<close> has no length of its own: it is the memory behind the header,
  read and written at any index. The functions below say what a call does when every
  address it reaches through the mapping lies inside the region; an access behind the
  mapped pages is a fault of the process, which the functions do not describe. The
  predicate \<open>slot_bytes_in_region\<close> says when the bytes a produce writes or a consume reads
  in a slot lie inside the region.
\<close>

record SharedMemoryHeader =
  magic :: u32
  version :: u32
  total_size :: u64
  header_size :: u64
  schema_offset :: u64
  schema_size :: u64
  buffer_count :: u64
  buffer_size :: u64
  buffers_offset :: u64
  write_sequence :: u64
  read_sequence :: u64
  writer_active :: bool
  reader_count :: u32
  write_sem_name :: string
  read_sem_name :: string
  buffer_states :: "u64 \<Rightarrow> BufferState"

record Stats =
  bytes_written :: u64
  bytes_read :: u64
  writes_count :: u64
  reads_count :: u64
  wait_timeouts :: u64

text \<open>
  \<open>mapped_memory_\<close> (and \<open>header_\<close>, the same address) is a null pointer, \<open>MAP_FAILED\<close>,
  the mapping of a kernel object, or a pointer left behind after \<open>munmap\<close>.
\<close>

datatype map_ptr = NullPtr | MapFailed | MappedAt string | Unmapped string

text \<open>
  The private fields of class \<open>SharedMemoryArena\<close>. A file descriptor and a \<open>sem_t*\<close>
  are modelled by the kernel name of the object they refer to; \<open>None\<close> is \<open>-1\<close>,
  \<open>nullptr\<close> or \<open>SEM_FAILED\<close>. The field \<open>x_\<close> of the class is \<open>m_x\<close> here.
\<close>

record SharedMemoryArena =
  m_name :: string
  m_total_size :: u64
  m_buffer_count :: u64
  m_buffer_size :: u64
  m_shm_fd :: "string option"
  m_mapped_memory :: map_ptr
  m_write_sem :: "string option"
  m_read_sem :: "string option"
  m_is_writer :: bool
  m_is_attached :: bool
  m_stats :: Stats

section \<open>The operating system\<close>

text \<open>
  A shared-memory object has the size set by \<open>ftruncate\<close> (reported by \<open>fstat\<close>), the
  header at its start, and the bytes last written at each byte offset where a slot
  payload was stored. A named semaphore is its counter.
\<close>

record shm_object =
  st_size :: u64
  hdr :: SharedMemoryHeader
  payload :: "u64 \<Rightarrow> byte list"

record kernel =
  shm :: "string \<rightharpoonup> shm_object"
  sems :: "string \<rightharpoonup> nat"

text \<open>
  System calls can also fail for reasons outside the model (permissions, limits).
  Each flag makes the corresponding call of an attach fail. A wait on a semaphore has its
  own argument: whether a signal interrupts it.
\<close>

record os_faults =
  shm_open_fails :: bool
  ftruncate_fails :: bool
  fstat_fails :: bool
  mmap_fails :: bool
  sem_open_write_fails :: bool
  sem_open_read_fails :: bool

definition no_faults :: os_faults where
  "no_faults = \<lparr>shm_open_fails = False, ftruncate_fails = False, fstat_fails = False,
     mmap_fails = False, sem_open_write_fails = False, sem_open_read_fails = False\<rparr>"

text \<open>What a call does: it returns, it blocks forever, or the process traps (a fault
  on a bad pointer, an integer division by zero).\<close>

datatype 'a outcome = Return 'a | Block | Trap

definition SEM_VALUE_MAX :: nat where
  "SEM_VALUE_MAX = 2147483647"

text \<open>\<open>std::string::c_str()\<close> read as a C string: the characters before the first NUL.\<close>

definition c_str :: "string \<Rightarrow> string" where
  "c_str s = takeWhile (\<lambda>c. c \<noteq> CHR 0x00) s"

text \<open>\<open>snprintf(buf, 64, "<prefix>%s", s)\<close>: at most 63 characters and the NUL.\<close>

definition snprintf_64 :: "string \<Rightarrow> string \<Rightarrow> string" where
  "snprintf_64 prefix s = take 63 (prefix @ c_str s)"

definition sem_unlink :: "string \<Rightarrow> kernel \<Rightarrow> kernel" where
  "sem_unlink nm k = k\<lparr>sems := (sems k)(nm := None)\<rparr>"

text \<open>\<open>sem_open(name, O_CREAT | O_EXCL, 0644, value)\<close>: fails when the name exists
  or the value exceeds \<open>SEM_VALUE_MAX\<close>.\<close>

definition sem_open_excl :: "bool \<Rightarrow> string \<Rightarrow> nat \<Rightarrow> kernel \<Rightarrow> string option \<times> kernel" where
  "sem_open_excl fails nm v k =
     (if fails \<or> sems k nm \<noteq> None \<or> SEM_VALUE_MAX < v then (None, k)
      else (Some nm, k\<lparr>sems := (sems k)(nm \<mapsto> v)\<rparr>))"

text \<open>\<open>sem_open(name, 0)\<close>: opens an existing semaphore.\<close>

definition sem_open_existing :: "bool \<Rightarrow> string \<Rightarrow> kernel \<Rightarrow> string option" where
  "sem_open_existing fails nm k =
     (if fails \<or> sems k nm = None then None else Some nm)"

text \<open>
  \<open>sem_wait\<close>: takes a token when there is one; otherwise it blocks, unless a signal
  interrupts it (\<open>EINTR\<close>, result \<open>False\<close>). A bad handle traps.
\<close>

definition sem_wait :: "bool \<Rightarrow> string option \<Rightarrow> kernel \<Rightarrow> (bool \<times> kernel) outcome" where
  "sem_wait intr h k =
     (case h of
        None \<Rightarrow> Trap
      | Some nm \<Rightarrow>
          (case sems k nm of
             None \<Rightarrow> Trap
           | Some c \<Rightarrow>
               if 0 < c then Return (True, k\<lparr>sems := (sems k)(nm \<mapsto> c - 1)\<rparr>)
               else if intr then Return (False, k)
               else Block))"

datatype wait_result = Acquired | TimedOut | WaitError

text \<open>
  \<open>sem_timedwait\<close>: takes a token when there is one; otherwise it ends with
  \<open>ETIMEDOUT\<close>, or with another error when a signal interrupts it.
\<close>

definition sem_timedwait :: "bool \<Rightarrow> string option \<Rightarrow> kernel \<Rightarrow> (wait_result \<times> kernel) outcome" where
  "sem_timedwait intr h k =
     (case h of
        None \<Rightarrow> Trap
      | Some nm \<Rightarrow>
          (case sems k nm of
             None \<Rightarrow> Trap
           | Some c \<Rightarrow>
               if 0 < c then Return (Acquired, k\<lparr>sems := (sems k)(nm \<mapsto> c - 1)\<rparr>)
               else if intr then Return (WaitError, k)
               else Return (TimedOut, k)))"

text \<open>
  \<open>sem_post\<close>: adds a token. At \<open>SEM_VALUE_MAX\<close> it fails with \<open>EOVERFLOW\<close> and leaves
  the counter as it is; the callers ignore its result, so the model returns the kernel in
  both cases. A bad handle traps (\<open>None\<close>).
\<close>

definition sem_post :: "string option \<Rightarrow> kernel \<Rightarrow> kernel option" where
  "sem_post h k =
     (case h of
        None \<Rightarrow> None
      | Some nm \<Rightarrow>
          (case sems k nm of
             None \<Rightarrow> None
           | Some c \<Rightarrow>
               if c < SEM_VALUE_MAX then Some (k\<lparr>sems := (sems k)(nm \<mapsto> c + 1)\<rparr>)
               else Some k))"

text \<open>The header a handle reaches through its pointer \<open>header_\<close>, and the store through it.\<close>

definition header_of :: "SharedMemoryArena \<Rightarrow> kernel \<Rightarrow> SharedMemoryHeader option" where
  "header_of a k =
     (case m_mapped_memory a of
        MappedAt nm \<Rightarrow> (case shm k nm of None \<Rightarrow> None | Some obj \<Rightarrow> Some (hdr obj))
      | _ \<Rightarrow> None)"

definition store_header :: "string \<Rightarrow> SharedMemoryHeader \<Rightarrow> kernel \<Rightarrow> kernel" where
  "store_header nm h k =
     (case shm k nm of
        None \<Rightarrow> k
      | Some obj \<Rightarrow> k\<lparr>shm := (shm k)(nm \<mapsto> obj\<lparr>hdr := h\<rparr>)\<rparr>)"

definition store_payload :: "string \<Rightarrow> u64 \<Rightarrow> byte list \<Rightarrow> kernel \<Rightarrow> kernel" where
  "store_payload nm off bs k =
     (case shm k nm of
        None \<Rightarrow> k
      | Some obj \<Rightarrow> k\<lparr>shm := (shm k)(nm \<mapsto> obj\<lparr>payload := (payload obj)(off := bs)\<rparr>)\<rparr>)"

text \<open>A freshly created object is zero-filled.\<close>

definition zero_header :: SharedMemoryHeader where
  "zero_header = \<lparr>magic = 0, version = 0, total_size = 0, header_size = 0,
     schema_offset = 0, schema_size = 0, buffer_count = 0, buffer_size = 0,
     buffers_offset = 0, write_sequence = 0, read_sequence = 0, writer_active = False,
     reader_count = 0, write_sem_name = [], read_sem_name = [],
     buffer_states = (\<lambda>_. \<lparr>data_size = 0, ready = False, timestamp = 0\<rparr>)\<rparr>"

definition zero_object :: "u64 \<Rightarrow> shm_object" where
  "zero_object n = \<lparr>st_size = n, hdr = zero_header, payload = (\<lambda>_. [])\<rparr>"

section \<open>Attach (shared_memory_arena.cpp)\<close>

text \<open>
  The constructor. \<open>buffer_count = 0\<close> divides by zero; the subtraction
  \<open>total_size_ - header_size\<close> is unsigned and wraps.
\<close>

definition SharedMemoryArena_new :: "abi \<Rightarrow> string \<Rightarrow> u64 \<Rightarrow> u64 \<Rightarrow> SharedMemoryArena option" where
  "SharedMemoryArena_new L name sz bc =
     (let header_size0 = sizeof_SharedMemoryHeader L + sizeof_BufferState L * bc;
          header_size1 = (header_size0 + CACHE_LINE_SIZE - 1) AND NOT (CACHE_LINE_SIZE - 1)
      in if bc = 0 then None
         else Some \<lparr>m_name = name, m_total_size = sz, m_buffer_count = bc,
                m_buffer_size = ((sz - header_size1) div bc) AND NOT (CACHE_LINE_SIZE - 1),
                m_shm_fd = None, m_mapped_memory = NullPtr, m_write_sem = None,
                m_read_sem = None, m_is_writer = False, m_is_attached = False,
                m_stats = \<lparr>bytes_written = 0, bytes_read = 0, writes_count = 0,
                           reads_count = 0, wait_timeouts = 0\<rparr>\<rparr>)"

definition shm_name :: "SharedMemoryArena \<Rightarrow> string" where
  "shm_name a = c_str (''/qads_'' @ m_name a)"

text \<open>
  \<open>CreateSharedMemory\<close>: exclusive \<open>shm_open\<close>, \<open>ftruncate\<close> (its length argument is a
  signed \<open>off_t\<close>), \<open>mmap\<close> (which refuses length 0). The two later failures unlink the name.
\<close>

definition CreateSharedMemory :: "os_faults \<Rightarrow> SharedMemoryArena \<Rightarrow> kernel \<Rightarrow> bool \<times> SharedMemoryArena \<times> kernel" where
  "CreateSharedMemory flt a k =
     (let nm = shm_name a in
      if shm_open_fails flt \<or> shm k nm \<noteq> None then (False, a\<lparr>m_shm_fd := None\<rparr>, k)
      else
        let a1 = a\<lparr>m_shm_fd := Some nm\<rparr> in
        if ftruncate_fails flt \<or> 2 ^ 63 \<le> m_total_size a then (False, a1, k)
        else if mmap_fails flt \<or> m_total_size a = 0
          then (False, a1\<lparr>m_mapped_memory := MapFailed\<rparr>, k)
        else (True, a1\<lparr>m_mapped_memory := MappedAt nm\<rparr>,
              k\<lparr>shm := (shm k)(nm \<mapsto> zero_object (m_total_size a))\<rparr>))"

text \<open>
  \<open>InitializeHeader\<close>: value-initialises the header and \<open>buffer_count_\<close> slot states,
  then fills in the fields.
\<close>

definition InitializeHeader :: "abi \<Rightarrow> SharedMemoryArena \<Rightarrow> SharedMemoryHeader" where
  "InitializeHeader L a =
     (let h0 = zero_header\<lparr>buffer_states := (\<lambda>i.
                 if i < m_buffer_count a then \<lparr>data_size = 0, ready = False, timestamp = 0\<rparr>
                 else buffer_states zero_header i)\<rparr>;
          h1 = h0\<lparr>magic := MAGIC_NUMBER, version := VERSION, total_size := m_total_size a,
                 header_size := sizeof_SharedMemoryHeader L + sizeof_BufferState L * m_buffer_count a\<rparr>;
          h2 = h1\<lparr>buffer_count := m_buffer_count a, buffer_size := m_buffer_size a,
                 buffers_offset := (header_size h1 + CACHE_LINE_SIZE - 1) AND NOT (CACHE_LINE_SIZE - 1)\<rparr>;
          h3 = h2\<lparr>schema_offset := 0, schema_size := 0\<rparr>
      in h3\<lparr>buffer_states := (\<lambda>i.
              if i < m_buffer_count a
              then (buffer_states h3 i)\<lparr>data_size := 0, ready := False, timestamp := 0\<rparr>
              else buffer_states h3 i)\<rparr>)"

text \<open>\<open>CreateWriter\<close>, the producer attach.\<close>

definition CreateWriter :: "abi \<Rightarrow> os_faults \<Rightarrow> SharedMemoryArena \<Rightarrow> kernel \<Rightarrow> bool \<times> SharedMemoryArena \<times> kernel" where
  "CreateWriter L flt a k =
     (if m_is_attached a then (False, a, k)
      else
        case CreateSharedMemory flt a k of
          (created, a1, k1) \<Rightarrow>
            if \<not> created then (False, a1, k1)
            else
            let nm = shm_name a1;
                a2 = a1\<lparr>m_is_writer := True, m_is_attached := True\<rparr>;
                h1 = (InitializeHeader L a1)
                       \<lparr>write_sem_name := snprintf_64 ''/qads_w_'' (m_name a1),
                        read_sem_name := snprintf_64 ''/qads_r_'' (m_name a1)\<rparr>;
                k2 = sem_unlink (read_sem_name h1) (sem_unlink (write_sem_name h1) k1);
                (ws, k3) = sem_open_excl (sem_open_write_fails flt) (write_sem_name h1)
                             (unat (m_buffer_count a1)) k2;
                (rs, k4) = sem_open_excl (sem_open_read_fails flt) (read_sem_name h1) 0 k3;
                a3 = a2\<lparr>m_write_sem := ws, m_read_sem := rs\<rparr>
            in if ws = None \<or> rs = None then (False, a3, store_header nm h1 k4)
               else (True, a3, store_header nm (h1\<lparr>writer_active := True\<rparr>) k4))"

text \<open>
  \<open>AttachSharedMemory\<close>: opens the object, takes its size from \<open>fstat\<close>, maps it and
  checks magic and version. On a bad header the mapping is removed but the pointer stays.
\<close>

definition AttachSharedMemory :: "os_faults \<Rightarrow> SharedMemoryArena \<Rightarrow> kernel \<Rightarrow> bool \<times> SharedMemoryArena" where
  "AttachSharedMemory flt a k =
     (let nm = shm_name a in
      case (if shm_open_fails flt then None else shm k nm) of
        None \<Rightarrow> (False, a\<lparr>m_shm_fd := None\<rparr>)
      | Some obj \<Rightarrow>
          let a1 = a\<lparr>m_shm_fd := Some nm\<rparr> in
          if fstat_fails flt then (False, a1)
          else
            let a2 = a1\<lparr>m_total_size := st_size obj\<rparr> in
            if mmap_fails flt \<or> st_size obj = 0 then (False, a2\<lparr>m_mapped_memory := MapFailed\<rparr>)
            else if magic (hdr obj) \<noteq> MAGIC_NUMBER \<or> version (hdr obj) \<noteq> VERSION
              then (False, a2\<lparr>m_mapped_memory := Unmapped nm\<rparr>)
            else (True, a2\<lparr>m_mapped_memory := MappedAt nm,
                          m_buffer_count := buffer_count (hdr obj),
                          m_buffer_size := buffer_size (hdr obj)\<rparr>))"

text \<open>\<open>AttachReader\<close>, the consumer attach.\<close>

definition AttachReader :: "os_faults \<Rightarrow> SharedMemoryArena \<Rightarrow> kernel \<Rightarrow> (bool \<times> SharedMemoryArena \<times> kernel) outcome" where
  "AttachReader flt a k =
     (if m_is_attached a then Return (False, a, k)
      else
        case AttachSharedMemory flt a k of
          (attached, a1) \<Rightarrow>
            if \<not> attached then Return (False, a1, k)
            else
              (case header_of a1 k of
                 None \<Rightarrow> Trap
               | Some h \<Rightarrow>
                   let a2 = a1\<lparr>m_is_writer := False, m_is_attached := True\<rparr>;
                       ws = sem_open_existing (sem_open_write_fails flt) (write_sem_name h) k;
                       rs = sem_open_existing (sem_open_read_fails flt) (read_sem_name h) k;
                       a3 = a2\<lparr>m_write_sem := ws, m_read_sem := rs\<rparr>
                   in if ws = None \<or> rs = None then Return (False, a3, k)
                      else Return (True, a3,
                             store_header (shm_name a1) (h\<lparr>reader_count := reader_count h + 1\<rparr>) k)))"

section \<open>Produce and consume\<close>

text \<open>\<open>arrow::Status\<close>: a code and a message.\<close>

datatype StatusCode = OK | OutOfMemory | KeyError | TypeError | Invalid | IOError
  | CapacityError | IndexError | Cancelled | UnknownError | NotImplemented | SerializationError

datatype Status = Status StatusCode string

fun ok :: "Status \<Rightarrow> bool" where
  "ok (Status c _) = (c = OK)"

text \<open>
  The record batch and the Arrow IPC stream format are outside this code: \<open>'b\<close> is the
  type of record batches, an \<open>ipc_writer\<close> is what the Arrow stream writer does on a
  fixed-size buffer of the given capacity (its final status and the bytes it left in the
  buffer), an \<open>ipc_reader\<close> what the stream reader returns for the bytes it is given.
\<close>

type_synonym 'b ipc_writer = "'b \<Rightarrow> u64 \<Rightarrow> Status \<times> byte list"
type_synonym 'b ipc_reader = "byte list \<Rightarrow> Status + 'b"

definition SerializeRecordBatch :: "'b ipc_writer \<Rightarrow> 'b \<Rightarrow> u64 \<Rightarrow> Status \<times> byte list \<times> u64" where
  "SerializeRecordBatch wr batch bsz =
     (case wr batch bsz of (st, bytes) \<Rightarrow> (st, bytes, of_nat (length bytes)))"

definition DeserializeRecordBatch :: "'b ipc_reader \<Rightarrow> byte list \<Rightarrow> u64 \<Rightarrow> Status + 'b" where
  "DeserializeRecordBatch rd buffer sz = rd (take (unat sz) buffer)"

text \<open>The slot index: \<open>%\<close> by \<open>buffer_count_ = 0\<close> traps.\<close>

definition GetNextWriteBuffer :: "SharedMemoryArena \<Rightarrow> SharedMemoryHeader \<Rightarrow> u64 option" where
  "GetNextWriteBuffer a h =
     (if m_buffer_count a = 0 then None else Some (write_sequence h mod m_buffer_count a))"

definition GetCurrentReadBuffer :: "SharedMemoryArena \<Rightarrow> SharedMemoryHeader \<Rightarrow> u64 option" where
  "GetCurrentReadBuffer a h =
     (if m_buffer_count a = 0 then None else Some (read_sequence h mod m_buffer_count a))"

text \<open>
  \<open>WriteRecordBatch\<close> from the line after the wait on \<open>write_sem_\<close>. When the
  serialization fails, \<open>ARROW_RETURN_NOT_OK\<close> returns its status at once.
\<close>

definition WriteRecordBatch_body :: "'b ipc_writer \<Rightarrow> u64 \<Rightarrow> 'b \<Rightarrow> SharedMemoryArena \<Rightarrow> kernel \<Rightarrow> (Status \<times> SharedMemoryArena \<times> kernel) outcome" where
  "WriteRecordBatch_body wr now batch a k =
     (case m_mapped_memory a of
        MappedAt nm \<Rightarrow>
          (case shm k nm of
             None \<Rightarrow> Trap
           | Some obj \<Rightarrow>
               (case GetNextWriteBuffer a (hdr obj) of
                  None \<Rightarrow> Trap
                | Some buffer_idx \<Rightarrow>
                    (case SerializeRecordBatch wr batch (m_buffer_size a) of
                       (st, bytes, serialized_size) \<Rightarrow>
                         let h = hdr obj;
                             buffer_offset = buffers_offset h + buffer_idx * m_buffer_size a;
                             k1 = store_payload nm buffer_offset bytes k
                         in if \<not> ok st then Return (st, a, k1)
                            else
                              let h' = h\<lparr>buffer_states := (buffer_states h)(buffer_idx :=
                                           \<lparr>data_size = serialized_size, ready = True, timestamp = now\<rparr>),
                                         write_sequence := write_sequence h + 1\<rparr>;
                                  k2 = store_header nm h' k1
                              in (case sem_post (m_read_sem a) k2 of
                                    None \<Rightarrow> Trap
                                  | Some k3 \<Rightarrow>
                                      Return (Status OK [],
                                        a\<lparr>m_stats := (m_stats a)
                                            \<lparr>bytes_written := bytes_written (m_stats a) + serialized_size,
                                             writes_count := writes_count (m_stats a) + 1\<rparr>\<rparr>,
                                        k3)))))
      | _ \<Rightarrow> Trap)"

definition WriteRecordBatch :: "'b ipc_writer \<Rightarrow> bool \<Rightarrow> u64 \<Rightarrow> 'b \<Rightarrow> SharedMemoryArena \<Rightarrow> kernel \<Rightarrow> (Status \<times> SharedMemoryArena \<times> kernel) outcome" where
  "WriteRecordBatch wr intr now batch a k =
     (if \<not> m_is_writer a \<or> \<not> m_is_attached a
        then Return (Status Invalid ''Not attached as writer'', a, k)
      else
        case sem_wait intr (m_write_sem a) k of
          Trap \<Rightarrow> Trap
        | Block \<Rightarrow> Block
        | Return (acquired, k1) \<Rightarrow>
            if \<not> acquired
              then Return (Status IOError ''Failed to wait for write semaphore'', a, k1)
            else WriteRecordBatch_body wr now batch a k1)"

text \<open>\<open>ReadRecordBatch\<close> from the line after the wait on \<open>read_sem_\<close>.\<close>

definition ReadRecordBatch_body :: "'b ipc_reader \<Rightarrow> SharedMemoryArena \<Rightarrow> kernel \<Rightarrow> ((Status + 'b) \<times> SharedMemoryArena \<times> kernel) outcome" where
  "ReadRecordBatch_body rd a k =
     (case m_mapped_memory a of
        MappedAt nm \<Rightarrow>
          (case shm k nm of
             None \<Rightarrow> Trap
           | Some obj \<Rightarrow>
               (case GetCurrentReadBuffer a (hdr obj) of
                  None \<Rightarrow> Trap
                | Some buffer_idx \<Rightarrow>
                    let h = hdr obj in
                    if \<not> ready (buffer_states h buffer_idx) then
                      (case sem_post (m_write_sem a) k of
                         None \<Rightarrow> Trap
                       | Some k1 \<Rightarrow> Return (Inl (Status IOError ''Buffer not ready''), a, k1))
                    else
                      let buffer_offset = buffers_offset h + buffer_idx * m_buffer_size a;
                          dsz = data_size (buffer_states h buffer_idx);
                          result = DeserializeRecordBatch rd (payload obj buffer_offset) dsz;
                          h' = h\<lparr>buffer_states := (buffer_states h)(buffer_idx :=
                                     (buffer_states h buffer_idx)\<lparr>ready := False\<rparr>),
                                   read_sequence := read_sequence h + 1\<rparr>;
                          k1 = store_header nm h' k
                      in (case sem_post (m_write_sem a) k1 of
                            None \<Rightarrow> Trap
                          | Some k2 \<Rightarrow>
                              Return (result,
                                (case result of
                                   Inl _ \<Rightarrow> a
                                 | Inr _ \<Rightarrow>
                                     a\<lparr>m_stats := (m_stats a)
                                         \<lparr>bytes_read := bytes_read (m_stats a) + dsz,
                                          reads_count := reads_count (m_stats a) + 1\<rparr>\<rparr>),
                                k2))))
      | _ \<Rightarrow> Trap)"

text \<open>
  \<open>ReadRecordBatch\<close>. The deadline of the timed wait is only a time: whether a token
  arrives before it is the interleaving of the operations.
\<close>

definition ReadRecordBatch :: "'b ipc_reader \<Rightarrow> bool \<Rightarrow> int \<Rightarrow> SharedMemoryArena \<Rightarrow> kernel \<Rightarrow> ((Status + 'b) \<times> SharedMemoryArena \<times> kernel) outcome" where
  "ReadRecordBatch rd intr timeout_ms a k =
     (if m_is_writer a \<or> \<not> m_is_attached a
        then Return (Inl (Status Invalid ''Not attached as reader''), a, k)
      else if 0 \<le> timeout_ms then
        (case sem_timedwait intr (m_read_sem a) k of
           Trap \<Rightarrow> Trap
         | Block \<Rightarrow> Block
         | Return (w, k1) \<Rightarrow>
             (case w of
                TimedOut \<Rightarrow>
                  Return (Inl (Status IOError ''Timeout waiting for data''),
                    a\<lparr>m_stats := (m_stats a)\<lparr>wait_timeouts := wait_timeouts (m_stats a) + 1\<rparr>\<rparr>, k1)
              | WaitError \<Rightarrow>
                  Return (Inl (Status IOError ''Failed to wait for read semaphore''), a, k1)
              | Acquired \<Rightarrow> ReadRecordBatch_body rd a k1))
      else
        (case sem_wait intr (m_read_sem a) k of
           Trap \<Rightarrow> Trap
         | Block \<Rightarrow> Block
         | Return (acquired, k1) \<Rightarrow>
             if \<not> acquired
               then Return (Inl (Status IOError ''Failed to wait for read semaphore''), a, k1)
             else ReadRecordBatch_body rd a k1))"

section \<open>Accesses inside the region\<close>

text \<open>
  The first \<open>n\<close> bytes of slot \<open>idx\<close>, at \<open>buffers_offset + idx * buffer_size_\<close>, lie inside
  the region (the sum is that of natural numbers: it does not wrap).
\<close>

definition slot_bytes_in_region :: "SharedMemoryArena \<Rightarrow> shm_object \<Rightarrow> u64 \<Rightarrow> nat \<Rightarrow> bool" where
  "slot_bytes_in_region a obj idx n \<longleftrightarrow>
     unat (buffers_offset (hdr obj)) + unat idx * unat (m_buffer_size a) + n
       \<le> unat (st_size obj)"

section \<open>The steps of a consume\<close>

text \<open>
  Between the wait on \<open>read_sem_\<close> and the return, \<open>ReadRecordBatch\<close> reaches the shared
  memory in separate operations: the load of \<open>read_sequence\<close> (line 253), the load of the
  ready flag (255), the loads for the deserialization (260-264), the store of the ready
  flag (267), the \<open>fetch_add\<close> on \<open>read_sequence\<close> (268) and the \<open>sem_post\<close> (256 or 271).
  Each is atomic; the operations of other processes can happen between any two of them.
  A \<open>read_pc\<close> is the place of a call between two of its operations, with the values of
  its local variables \<open>buffer_idx\<close>, \<open>data_size\<close> and \<open>result\<close>.
\<close>

datatype 'b read_pc =
    LoadIndex
  | TestReady u64
  | ReturnToken
  | Deserialize u64
  | StoreReady u64 u64 "Status + 'b"
  | FetchAdd u64 "Status + 'b"
  | PostToken u64 "Status + 'b"

datatype 'b progress = Running "'b read_pc" | Returned "Status + 'b"

text \<open>The start of the call, up to and including the wait (lines 225-251).\<close>

definition ReadRecordBatch_enter :: "bool \<Rightarrow> int \<Rightarrow> SharedMemoryArena \<Rightarrow> kernel \<Rightarrow> ('b progress \<times> SharedMemoryArena \<times> kernel) outcome" where
  "ReadRecordBatch_enter intr timeout_ms a k =
     (if m_is_writer a \<or> \<not> m_is_attached a
        then Return (Returned (Inl (Status Invalid ''Not attached as reader'')), a, k)
      else if 0 \<le> timeout_ms then
        (case sem_timedwait intr (m_read_sem a) k of
           Trap \<Rightarrow> Trap
         | Block \<Rightarrow> Block
         | Return (w, k1) \<Rightarrow>
             (case w of
                TimedOut \<Rightarrow>
                  Return (Returned (Inl (Status IOError ''Timeout waiting for data'')),
                    a\<lparr>m_stats := (m_stats a)\<lparr>wait_timeouts := wait_timeouts (m_stats a) + 1\<rparr>\<rparr>, k1)
              | WaitError \<Rightarrow>
                  Return (Returned (Inl (Status IOError ''Failed to wait for read semaphore'')), a, k1)
              | Acquired \<Rightarrow> Return (Running LoadIndex, a, k1)))
      else
        (case sem_wait intr (m_read_sem a) k of
           Trap \<Rightarrow> Trap
         | Block \<Rightarrow> Block
         | Return (acquired, k1) \<Rightarrow>
             if \<not> acquired
               then Return (Returned (Inl (Status IOError ''Failed to wait for read semaphore'')), a, k1)
             else Return (Running LoadIndex, a, k1)))"

text \<open>
  One operation of the call on the shared memory as it is at that moment. The header is
  read anew in every step: what the call loaded before is in its \<open>read_pc\<close>.
\<close>

definition ReadRecordBatch_step :: "'b ipc_reader \<Rightarrow> 'b read_pc \<Rightarrow> SharedMemoryArena \<Rightarrow> kernel \<Rightarrow> ('b progress \<times> SharedMemoryArena \<times> kernel) outcome" where
  "ReadRecordBatch_step rd pc a k =
     (case m_mapped_memory a of
        MappedAt nm \<Rightarrow>
          (case shm k nm of
             None \<Rightarrow> Trap
           | Some obj \<Rightarrow>
               let h = hdr obj in
               (case pc of
                  LoadIndex \<Rightarrow>
                    (case GetCurrentReadBuffer a h of
                       None \<Rightarrow> Trap
                     | Some buffer_idx \<Rightarrow> Return (Running (TestReady buffer_idx), a, k))
                | TestReady buffer_idx \<Rightarrow>
                    if \<not> ready (buffer_states h buffer_idx) then Return (Running ReturnToken, a, k)
                    else Return (Running (Deserialize buffer_idx), a, k)
                | ReturnToken \<Rightarrow>
                    (case sem_post (m_write_sem a) k of
                       None \<Rightarrow> Trap
                     | Some k1 \<Rightarrow> Return (Returned (Inl (Status IOError ''Buffer not ready'')), a, k1))
                | Deserialize buffer_idx \<Rightarrow>
                    let buffer_offset = buffers_offset h + buffer_idx * m_buffer_size a;
                        dsz = data_size (buffer_states h buffer_idx)
                    in Return (Running (StoreReady buffer_idx dsz
                                 (DeserializeRecordBatch rd (payload obj buffer_offset) dsz)), a, k)
                | StoreReady buffer_idx dsz result \<Rightarrow>
                    Return (Running (FetchAdd dsz result), a,
                      store_header nm (h\<lparr>buffer_states := (buffer_states h)(buffer_idx :=
                                           (buffer_states h buffer_idx)\<lparr>ready := False\<rparr>)\<rparr>) k)
                | FetchAdd dsz result \<Rightarrow>
                    Return (Running (PostToken dsz result), a,
                      store_header nm (h\<lparr>read_sequence := read_sequence h + 1\<rparr>) k)
                | PostToken dsz result \<Rightarrow>
                    (case sem_post (m_write_sem a) k of
                       None \<Rightarrow> Trap
                     | Some k1 \<Rightarrow>
                         Return (Returned result,
                           (case result of
                              Inl _ \<Rightarrow> a
                            | Inr _ \<Rightarrow>
                                a\<lparr>m_stats := (m_stats a)
                                    \<lparr>bytes_read := bytes_read (m_stats a) + dsz,
                                     reads_count := reads_count (m_stats a) + 1\<rparr>\<rparr>),
                           k1))))
      | _ \<Rightarrow> Trap)"

text \<open>
  The call run to its return with nothing in between: at most \<open>n\<close> steps. Six steps are
  enough for every call (lemma \<open>ReadRecordBatch_steps\<close>).
\<close>

fun run_call :: "nat \<Rightarrow> 'b ipc_reader \<Rightarrow> 'b progress \<times> SharedMemoryArena \<times> kernel \<Rightarrow> ((Status + 'b) \<times> SharedMemoryArena \<times> kernel) outcome" where
  "run_call n rd (Returned r, a, k) = Return (r, a, k)"
| "run_call 0 rd (Running pc, a, k) = Block"
| "run_call (Suc n) rd (Running pc, a, k) =
     (case ReadRecordBatch_step rd pc a k of
        Return s \<Rightarrow> run_call n rd s
      | Block \<Rightarrow> Block
      | Trap \<Rightarrow> Trap)"

section \<open>Producer and consumers on one region\<close>

text \<open>
  One producer and several consumers, each a process with its own handle, on one region.
  A consumer is inside a call of \<open>ReadRecordBatch\<close> (\<open>call = Some pc\<close>) or not; \<open>results\<close>
  are the values its calls returned, \<open>produced\<close> the statuses \<open>WriteRecordBatch\<close> returned.
\<close>

record 'b consumer =
  handle :: SharedMemoryArena
  call :: "'b read_pc option"
  results :: "(Status + 'b) list"

record 'b ring_system =
  kern :: kernel
  writer :: SharedMemoryArena
  consumers :: "'b consumer list"
  produced :: "Status list"

text \<open>
  What the scheduler lets happen next: a whole call of \<open>WriteRecordBatch\<close> by the producer,
  the start of a call of \<open>ReadRecordBatch\<close> by consumer \<open>i\<close>, or the next operation of the
  call consumer \<open>i\<close> is in. No signal arrives during a wait.
\<close>

datatype 'b action = Produce 'b u64 | Enter nat int | Step nat

definition progress_consumer :: "'b consumer \<Rightarrow> 'b progress \<Rightarrow> SharedMemoryArena \<Rightarrow> 'b consumer" where
  "progress_consumer c p a =
     (case p of
        Running pc \<Rightarrow> c\<lparr>handle := a, call := Some pc\<rparr>
      | Returned r \<Rightarrow> c\<lparr>handle := a, call := None, results := results c @ [r]\<rparr>)"

text \<open>
  \<open>schedule_step\<close> is \<open>None\<close> when the action cannot happen in the state (no such consumer,
  a consumer already or not inside a call) or the call blocks or traps.
\<close>

definition schedule_step :: "'b ipc_writer \<Rightarrow> 'b ipc_reader \<Rightarrow> 'b action \<Rightarrow> 'b ring_system \<Rightarrow> 'b ring_system option" where
  "schedule_step wr rd x s =
     (case x of
        Produce batch now \<Rightarrow>
          (case WriteRecordBatch wr False now batch (writer s) (kern s) of
             Return (st, w', k') \<Rightarrow> Some (s\<lparr>kern := k', writer := w', produced := produced s @ [st]\<rparr>)
           | _ \<Rightarrow> None)
      | Enter i timeout_ms \<Rightarrow>
          if i < length (consumers s) \<and> call (consumers s ! i) = None then
            (case ReadRecordBatch_enter False timeout_ms (handle (consumers s ! i)) (kern s) of
               Return (p, a', k') \<Rightarrow>
                 Some (s\<lparr>kern := k',
                         consumers := (consumers s)[i := progress_consumer (consumers s ! i) p a']\<rparr>)
             | _ \<Rightarrow> None)
          else None
      | Step i \<Rightarrow>
          if i < length (consumers s) then
            (case call (consumers s ! i) of
               None \<Rightarrow> None
             | Some pc \<Rightarrow>
                 (case ReadRecordBatch_step rd pc (handle (consumers s ! i)) (kern s) of
                    Return (p, a', k') \<Rightarrow>
                      Some (s\<lparr>kern := k',
                              consumers := (consumers s)[i := progress_consumer (consumers s ! i) p a']\<rparr>)
                  | _ \<Rightarrow> None))
          else None)"

fun schedule_run :: "'b ipc_writer \<Rightarrow> 'b ipc_reader \<Rightarrow> 'b action list \<Rightarrow> 'b ring_system \<Rightarrow> 'b ring_system option" where
  "schedule_run wr rd [] s = Some s"
| "schedule_run wr rd (x # xs) s =
     (case schedule_step wr rd x s of
        None \<Rightarrow> None
      | Some s' \<Rightarrow> schedule_run wr rd xs s')"

section \<open>Example runs\<close>

text \<open>
  The sizes of the two structs as an x86-64 compiler lays them out under
  \<open>#pragma pack(1)\<close>: 213 bytes of fields padded to the 64-byte alignment, and
  8 + 1 + 8 bytes per slot state.
\<close>

definition ex_abi :: abi where
  "ex_abi = \<lparr>sizeof_SharedMemoryHeader = 256, sizeof_BufferState = 17\<rparr>"

text \<open>
  A toy Arrow codec on batches that are their own byte stream: the writer fails when the
  batch does not fit the buffer, the reader accepts a stream that starts with the
  continuation byte \<open>0xFF\<close>.
\<close>

definition ex_ipc_writer :: "byte list ipc_writer" where
  "ex_ipc_writer batch cap =
     (if length batch \<le> unat cap then (Status OK [], batch)
      else (Status IOError ''Write out of bounds'', take (unat cap) batch))"

definition ex_ipc_reader :: "byte list ipc_reader" where
  "ex_ipc_reader bs =
     (case bs of
        [] \<Rightarrow> Inl (Status Invalid ''Empty stream'')
      | b # _ \<Rightarrow> if b = 0xFF then Inr bs else Inl (Status Invalid ''Not an IPC stream''))"

definition ex_kernel :: kernel where
  "ex_kernel = \<lparr>shm = Map.empty, sems = Map.empty\<rparr>"

text \<open>A kernel where a crashed producer left its two semaphores behind.\<close>

definition ex_stale_kernel :: kernel where
  "ex_stale_kernel = \<lparr>shm = Map.empty, sems = [''/qads_w_t1'' \<mapsto> 7, ''/qads_r_t1'' \<mapsto> 5]\<rparr>"

definition ex_stats :: Stats where
  "ex_stats = \<lparr>bytes_written = 0, bytes_read = 0, writes_count = 0, reads_count = 0,
     wait_timeouts = 0\<rparr>"

text \<open>The handle \<open>SharedMemoryArena("t1", 2368, 2)\<close>: two slots of 1 KiB behind a 320-byte header.\<close>

definition ex_handle :: SharedMemoryArena where
  "ex_handle = \<lparr>m_name = ''t1'', m_total_size = 2368, m_buffer_count = 2, m_buffer_size = 1024,
     m_shm_fd = None, m_mapped_memory = NullPtr, m_write_sem = None, m_read_sem = None,
     m_is_writer = False, m_is_attached = False, m_stats = ex_stats\<rparr>"

text \<open>The handle after \<open>CreateWriter\<close>, and after \<open>AttachReader\<close>.\<close>

definition ex_producer :: SharedMemoryArena where
  "ex_producer = ex_handle\<lparr>m_shm_fd := Some ''/qads_t1'', m_mapped_memory := MappedAt ''/qads_t1'',
     m_write_sem := Some ''/qads_w_t1'', m_read_sem := Some ''/qads_r_t1'',
     m_is_writer := True, m_is_attached := True\<rparr>"

definition ex_consumer :: SharedMemoryArena where
  "ex_consumer = ex_handle\<lparr>m_shm_fd := Some ''/qads_t1'', m_mapped_memory := MappedAt ''/qads_t1'',
     m_write_sem := Some ''/qads_w_t1'', m_read_sem := Some ''/qads_r_t1'',
     m_is_writer := False, m_is_attached := True\<rparr>"

text \<open>
  The region of \<open>ex_producer\<close> with the given sequence counters, reader count and slot
  states, and the kernel that holds it with \<open>f\<close> free and \<open>c\<close> ready tokens.
\<close>

definition ex_header :: "u64 \<Rightarrow> u64 \<Rightarrow> u32 \<Rightarrow> (u64 \<Rightarrow> BufferState) \<Rightarrow> SharedMemoryHeader" where
  "ex_header ws rs rc slots = \<lparr>magic = 0x51444153, version = 1, total_size = 2368,
     header_size = 290, schema_offset = 0, schema_size = 0, buffer_count = 2,
     buffer_size = 1024, buffers_offset = 320, write_sequence = ws, read_sequence = rs,
     writer_active = True, reader_count = rc, write_sem_name = ''/qads_w_t1'',
     read_sem_name = ''/qads_r_t1'', buffer_states = slots\<rparr>"

definition ex_ring :: "SharedMemoryHeader \<Rightarrow> (u64 \<Rightarrow> byte list) \<Rightarrow> nat \<Rightarrow> nat \<Rightarrow> kernel" where
  "ex_ring h p f c = \<lparr>shm = [''/qads_t1'' \<mapsto> \<lparr>st_size = 2368, hdr = h, payload = p\<rparr>],
     sems = [''/qads_w_t1'' \<mapsto> f, ''/qads_r_t1'' \<mapsto> c]\<rparr>"

definition ex_empty_slots :: "u64 \<Rightarrow> BufferState" where
  "ex_empty_slots = (\<lambda>_. \<lparr>data_size = 0, ready = False, timestamp = 0\<rparr>)"

text \<open>The kernel after the producer attach, and after one consumer attached.\<close>

definition ex_created :: kernel where
  "ex_created = ex_ring (ex_header 0 0 0 ex_empty_slots) (\<lambda>_. []) 2 0"

definition ex_attached :: kernel where
  "ex_attached = ex_ring (ex_header 0 0 1 ex_empty_slots) (\<lambda>_. []) 2 0"

text \<open>The same ring after a stray post on the ready semaphore: a token but no published slot.\<close>

definition ex_stray_token :: kernel where
  "ex_stray_token = ex_ring (ex_header 0 0 1 ex_empty_slots) (\<lambda>_. []) 2 1"

text \<open>The ring after the producer published the one-byte batch \<open>bs\<close> at time 5.\<close>

definition ex_published :: "byte list \<Rightarrow> kernel" where
  "ex_published bs = ex_ring
     (ex_header 1 0 1 (ex_empty_slots(0 := \<lparr>data_size = 1, ready = True, timestamp = 5\<rparr>)))
     ((\<lambda>_. [])(320 := bs)) 1 1"

text \<open>
  A region of 64 bytes whose header has the magic and the version, but a \<open>total_size\<close>
  field of 1 and slots that would end at byte 2368.
\<close>

definition ex_corrupt_header :: SharedMemoryHeader where
  "ex_corrupt_header = (ex_header 0 0 0 ex_empty_slots)\<lparr>total_size := 1\<rparr>"

definition ex_corrupt :: kernel where
  "ex_corrupt = \<lparr>shm = [''/qads_t1'' \<mapsto>
       \<lparr>st_size = 64, hdr = ex_corrupt_header, payload = (\<lambda>_. [])\<rparr>],
     sems = [''/qads_w_t1'' \<mapsto> 2, ''/qads_r_t1'' \<mapsto> 0]\<rparr>"

text \<open>
  The handle \<open>SharedMemoryArena("t1", 64, 2)\<close>: a region smaller than the 320 bytes of
  the header block, and the buffer size the constructor computes for it.
\<close>

definition ex_small_handle :: SharedMemoryArena where
  "ex_small_handle = ex_handle\<lparr>m_total_size := 64, m_buffer_size := 9223372036854775680\<rparr>"

text \<open>A region whose header does not carry the magic.\<close>

definition ex_bad_magic :: kernel where
  "ex_bad_magic = ex_ring ((ex_header 0 0 0 ex_empty_slots)\<lparr>magic := 0\<rparr>) (\<lambda>_. []) 2 0"

text \<open>
  The ring of two slots with two consumers attached, each in a process of its own, and a
  schedule on it: the producer publishes the batches \<open>[0xFF, 1]\<close> and \<open>[0xFF, 2]\<close>; consumer 0
  takes a ready token, reads slot 0 and clears its ready flag (line 267); before consumer 0
  reaches \<open>fetch_add\<close> (line 268), consumer 1 takes the other ready token and runs its
  whole call; consumer 0 finishes; the producer publishes \<open>[0xFF, 3]\<close> and \<open>[0xFF, 4]\<close>.
\<close>

definition ex_two_attached :: kernel where
  "ex_two_attached = ex_ring (ex_header 0 0 2 ex_empty_slots) (\<lambda>_. []) 2 0"

definition ex_two_consumers :: "byte list ring_system" where
  "ex_two_consumers =
     \<lparr>kern = ex_two_attached, writer = ex_producer,
      consumers = [\<lparr>handle = ex_consumer, call = None, results = []\<rparr>,
                   \<lparr>handle = ex_consumer, call = None, results = []\<rparr>],
      produced = []\<rparr>"

definition ex_overlap :: "byte list action list" where
  "ex_overlap =
     [Produce [0xFF, 1] 5, Produce [0xFF, 2] 6,
      Enter 0 1000, Step 0, Step 0, Step 0, Step 0,
      Enter 1 1000, Step 1, Step 1, Step 1,
      Step 0, Step 0,
      Produce [0xFF, 3] 7, Produce [0xFF, 4] 8]"

section \<open>Bit masks and rounding\<close>

lemma and_not_63: "unat ((x::u64) AND NOT 63) = (unat x div 64) * 64"
proof -
  have m: "(63::u64) = mask 6" by (simp add: mask_eq_exp_minus_1)
  have "x AND NOT 63 = push_bit 6 (drop_bit 6 x)"
    unfolding m by (rule bit_word_eqI) (auto simp: bit_simps)
  then have "unat (x AND NOT 63) = unat (push_bit 6 (drop_bit 6 x))" by simp
  also have "\<dots> = take_bit 64 (push_bit 6 (unat (drop_bit 6 x)))"
    by (simp add: unsigned_push_bit_eq)
  also have "unat (drop_bit 6 x) = unat x div 64"
    by (simp add: drop_bit_eq_div unat_div)
  also have "take_bit 64 (push_bit 6 (unat x div 64)) = (unat x div 64) * 64"
  proof -
    have "unat x div 64 * 64 \<le> unat x" by simp
    moreover have "unat x < 2 ^ 64" using unsigned_less [of x] by simp
    ultimately have "unat x div 64 * 64 < 2 ^ 64" by linarith
    then show ?thesis
      by (simp add: push_bit_eq_mult take_bit_eq_mod)
  qed
  finally show ?thesis .
qed

lemma and_minus_64: "unat ((x::u64) AND - 64) = (unat x div 64) * 64"
  using and_not_63 [of x] by simp

lemma align_up_63: "unat (((x::u64) + 63) AND NOT 63) = ((unat x + 63) mod 2 ^ 64 div 64) * 64"
  by (simp add: and_minus_64 unat_word_ariths)

section \<open>One call of consume or produce\<close>

text \<open>
  What \<open>ReadRecordBatch\<close> and \<open>WriteRecordBatch\<close> return, and the kernel they leave, on a
  handle that is attached to a mapped region and holds its two semaphores.
\<close>

lemma consume_not_ready:
  assumes "\<not> m_is_writer a" and "m_is_attached a"
    and "m_mapped_memory a = MappedAt nm" and "shm k nm = Some obj"
    and "m_buffer_count a \<noteq> 0"
    and "m_read_sem a = Some rn" and "sems k rn = Some (Suc c)"
    and "m_write_sem a = Some wn" and "sems k wn = Some f" and "wn \<noteq> rn"
    and "\<not> ready (buffer_states (hdr obj) (read_sequence (hdr obj) mod m_buffer_count a))"
  shows "ReadRecordBatch rd intr timeout_ms a k =
           Return (Inl (Status IOError ''Buffer not ready''), a,
                   k\<lparr>sems := (if f < SEM_VALUE_MAX then (sems k)(rn \<mapsto> c, wn \<mapsto> Suc f)
                               else (sems k)(rn \<mapsto> c))\<rparr>)"
  using assms
  by (simp add: ReadRecordBatch_def ReadRecordBatch_body_def sem_timedwait_def sem_wait_def
      sem_post_def GetCurrentReadBuffer_def)

lemma consume_ready:
  assumes "\<not> m_is_writer a" and "m_is_attached a"
    and "m_mapped_memory a = MappedAt nm" and "shm k nm = Some obj"
    and "m_buffer_count a \<noteq> 0"
    and "m_read_sem a = Some rn" and "sems k rn = Some (Suc c)"
    and "m_write_sem a = Some wn" and "sems k wn = Some f" and "wn \<noteq> rn"
    and "ready (buffer_states (hdr obj) (read_sequence (hdr obj) mod m_buffer_count a))"
    and "res = DeserializeRecordBatch rd
            (payload obj (buffers_offset (hdr obj) + read_sequence (hdr obj) mod m_buffer_count a * m_buffer_size a))
            (data_size (buffer_states (hdr obj) (read_sequence (hdr obj) mod m_buffer_count a)))"
  shows "ReadRecordBatch rd intr timeout_ms a k =
           Return (res,
             (case res of Inl _ \<Rightarrow> a
              | Inr _ \<Rightarrow> a\<lparr>m_stats := (m_stats a)
                   \<lparr>bytes_read := bytes_read (m_stats a) + data_size (buffer_states (hdr obj) (read_sequence (hdr obj) mod m_buffer_count a)),
                    reads_count := reads_count (m_stats a) + 1\<rparr>\<rparr>),
             k\<lparr>shm := (shm k)(nm \<mapsto> obj\<lparr>hdr := (hdr obj)
                       \<lparr>buffer_states := (buffer_states (hdr obj))((read_sequence (hdr obj) mod m_buffer_count a) :=
                           (buffer_states (hdr obj) (read_sequence (hdr obj) mod m_buffer_count a))\<lparr>ready := False\<rparr>),
                        read_sequence := read_sequence (hdr obj) + 1\<rparr>\<rparr>),
              sems := (if f < SEM_VALUE_MAX then (sems k)(rn \<mapsto> c, wn \<mapsto> Suc f)
                       else (sems k)(rn \<mapsto> c))\<rparr>)"
  using assms
  by (simp add: ReadRecordBatch_def ReadRecordBatch_body_def sem_timedwait_def sem_wait_def
      sem_post_def GetCurrentReadBuffer_def store_header_def Let_def split: sum.split)


lemma produce_fail:
  assumes "m_is_writer a" and "m_is_attached a"
    and "m_mapped_memory a = MappedAt nm" and "shm k nm = Some obj"
    and "m_buffer_count a \<noteq> 0"
    and "m_write_sem a = Some wn" and "sems k wn = Some (Suc f)"
    and "wr batch (m_buffer_size a) = (st, bytes)" and "\<not> ok st"
  shows "WriteRecordBatch wr intr now batch a k =
           Return (st, a,
             k\<lparr>shm := (shm k)(nm \<mapsto> obj\<lparr>payload :=
                       (payload obj)(buffers_offset (hdr obj) + (write_sequence (hdr obj) mod m_buffer_count a) * m_buffer_size a := bytes)\<rparr>),
              sems := (sems k)(wn \<mapsto> f)\<rparr>)"
  using assms
  by (simp add: WriteRecordBatch_def WriteRecordBatch_body_def sem_wait_def
      sem_post_def GetNextWriteBuffer_def store_header_def store_payload_def Let_def
      SerializeRecordBatch_def)

section \<open>What a successful attach leaves\<close>

lemma snprintf_distinct: "snprintf_64 ''/qads_w_'' x \<noteq> snprintf_64 ''/qads_r_'' y"
  by (simp add: snprintf_64_def take_Cons')

lemma new_fields:
  assumes "SharedMemoryArena_new L name sz bc = Some a"
  shows "bc \<noteq> 0" and "m_name a = name" and "m_total_size a = sz" and "m_buffer_count a = bc"
    and "m_buffer_size a =
          ((sz - ((sizeof_SharedMemoryHeader L + sizeof_BufferState L * bc + 63) AND NOT 63)) div bc) AND NOT 63"
    and "\<not> m_is_attached a" and "\<not> m_is_writer a"
  using assms
  by (auto simp: SharedMemoryArena_new_def CACHE_LINE_SIZE_def Let_def add.commute split: if_splits)

lemma CreateSharedMemory_True:
  assumes "CreateSharedMemory flt a k = (True, a1, k1)"
  shows "shm k (shm_name a) = None" and "m_total_size a \<noteq> 0" and "m_total_size a < 2 ^ 63"
    and "a1 = a\<lparr>m_shm_fd := Some (shm_name a), m_mapped_memory := MappedAt (shm_name a)\<rparr>"
    and "k1 = k\<lparr>shm := (shm k)(shm_name a \<mapsto> zero_object (m_total_size a))\<rparr>"
  using assms
  by (auto simp: CreateSharedMemory_def Let_def not_le split: if_splits)

lemma InitializeHeader_handle [simp]:
  "InitializeHeader L (a\<lparr>m_shm_fd := x, m_mapped_memory := y\<rparr>) = InitializeHeader L a"
  by (simp add: InitializeHeader_def)

lemma shm_name_handle [simp]:
  "shm_name (a\<lparr>m_shm_fd := x, m_mapped_memory := y\<rparr>) = shm_name a"
  by (simp add: shm_name_def)

lemma InitializeHeader_fields [simp]:
  "magic (InitializeHeader L a) = MAGIC_NUMBER"
  "version (InitializeHeader L a) = VERSION"
  "total_size (InitializeHeader L a) = m_total_size a"
  "header_size (InitializeHeader L a) = sizeof_SharedMemoryHeader L + sizeof_BufferState L * m_buffer_count a"
  "buffer_count (InitializeHeader L a) = m_buffer_count a"
  "buffer_size (InitializeHeader L a) = m_buffer_size a"
  "buffers_offset (InitializeHeader L a) =
     (sizeof_SharedMemoryHeader L + sizeof_BufferState L * m_buffer_count a + 63) AND NOT 63"
  "write_sequence (InitializeHeader L a) = 0"
  "read_sequence (InitializeHeader L a) = 0"
  "reader_count (InitializeHeader L a) = 0"
  "buffer_states (InitializeHeader L a) = (\<lambda>_. \<lparr>data_size = 0, ready = False, timestamp = 0\<rparr>)"
  "schema_offset (InitializeHeader L a) = 0"
  "schema_size (InitializeHeader L a) = 0"
  "writer_active (InitializeHeader L a) = False"
  "write_sem_name (InitializeHeader L a) = []"
  "read_sem_name (InitializeHeader L a) = []"
  by (simp_all add: InitializeHeader_def zero_header_def CACHE_LINE_SIZE_def Let_def add.commute
      fun_eq_iff)

lemma InitializeHeader_eq:
  "InitializeHeader L a =
     \<lparr>magic = MAGIC_NUMBER, version = VERSION, total_size = m_total_size a,
      header_size = sizeof_SharedMemoryHeader L + sizeof_BufferState L * m_buffer_count a,
      schema_offset = 0, schema_size = 0, buffer_count = m_buffer_count a,
      buffer_size = m_buffer_size a,
      buffers_offset =
        (sizeof_SharedMemoryHeader L + sizeof_BufferState L * m_buffer_count a + 63) AND NOT 63,
      write_sequence = 0, read_sequence = 0, writer_active = False, reader_count = 0,
      write_sem_name = [], read_sem_name = [],
      buffer_states = (\<lambda>_. \<lparr>data_size = 0, ready = False, timestamp = 0\<rparr>)\<rparr>"
  by (rule SharedMemoryHeader.equality) simp_all

lemma CreateWriter_True:
  assumes "CreateWriter L flt a k = (True, w, k')"
  defines "wn \<equiv> snprintf_64 ''/qads_w_'' (m_name a)"
    and "rn \<equiv> snprintf_64 ''/qads_r_'' (m_name a)"
  shows "shm k (shm_name a) = None" and "m_total_size a \<noteq> 0" and "m_total_size a < 2 ^ 63"
    and "unat (m_buffer_count a) \<le> SEM_VALUE_MAX"
    and "w = a\<lparr>m_shm_fd := Some (shm_name a), m_mapped_memory := MappedAt (shm_name a),
               m_is_writer := True, m_is_attached := True,
               m_write_sem := Some wn, m_read_sem := Some rn\<rparr>"
    and "k' = k\<lparr>shm := (shm k)(shm_name a \<mapsto>
                  \<lparr>st_size = m_total_size a,
                   hdr = (InitializeHeader L a)
                           \<lparr>write_sem_name := wn, read_sem_name := rn, writer_active := True\<rparr>,
                   payload = (\<lambda>_. [])\<rparr>),
               sems := (sems k)(wn \<mapsto> unat (m_buffer_count a), rn \<mapsto> 0)\<rparr>"
proof -
  obtain a1 k1 where c: "CreateSharedMemory flt a k = (True, a1, k1)"
    using assms(1) by (cases "CreateSharedMemory flt a k") (auto simp: CreateWriter_def split: if_splits)
  note f = CreateSharedMemory_True [OF c]
  show "shm k (shm_name a) = None" and "m_total_size a \<noteq> 0" and "m_total_size a < 2 ^ 63"
    by (rule f)+
  have d: "wn \<noteq> rn" unfolding wn_def rn_def by (rule snprintf_distinct)
  have e: "CreateWriter L flt a k = (True, w, k')" by (rule assms(1))
  show "unat (m_buffer_count a) \<le> SEM_VALUE_MAX"
    using e d unfolding wn_def rn_def CreateWriter_def c f(4) f(5)
    by (simp add: sem_open_excl_def sem_unlink_def Let_def split: if_splits)
  show "w = a\<lparr>m_shm_fd := Some (shm_name a), m_mapped_memory := MappedAt (shm_name a),
               m_is_writer := True, m_is_attached := True,
               m_write_sem := Some wn, m_read_sem := Some rn\<rparr>"
    using e d unfolding wn_def rn_def CreateWriter_def c f(4) f(5)
    by (auto simp add: sem_open_excl_def sem_unlink_def Let_def split: if_splits)
  show "k' = k\<lparr>shm := (shm k)(shm_name a \<mapsto>
                  \<lparr>st_size = m_total_size a,
                   hdr = (InitializeHeader L a)
                           \<lparr>write_sem_name := wn, read_sem_name := rn, writer_active := True\<rparr>,
                   payload = (\<lambda>_. [])\<rparr>),
               sems := (sems k)(wn \<mapsto> unat (m_buffer_count a), rn \<mapsto> 0)\<rparr>"
    using e d unfolding wn_def rn_def CreateWriter_def c f(4) f(5)
    by (auto simp add: sem_open_excl_def sem_unlink_def store_header_def zero_object_def Let_def
        split: if_splits)
qed

lemma AttachSharedMemory_True:
  assumes "AttachSharedMemory flt a k = (True, a1)"
  shows "\<exists>obj. shm k (shm_name a) = Some obj \<and> st_size obj \<noteq> 0 \<and>
           magic (hdr obj) = MAGIC_NUMBER \<and> version (hdr obj) = VERSION \<and>
           a1 = a\<lparr>m_shm_fd := Some (shm_name a), m_total_size := st_size obj,
                  m_mapped_memory := MappedAt (shm_name a),
                  m_buffer_count := buffer_count (hdr obj),
                  m_buffer_size := buffer_size (hdr obj)\<rparr>"
  using assms
  by (auto simp: AttachSharedMemory_def Let_def split: if_splits option.splits)

lemma AttachReader_True:
  assumes "AttachReader flt a k = Return (True, r, k')"
  shows "\<exists>obj. shm k (shm_name a) = Some obj \<and> st_size obj \<noteq> 0 \<and>
           magic (hdr obj) = MAGIC_NUMBER \<and> version (hdr obj) = VERSION \<and>
           sems k (write_sem_name (hdr obj)) \<noteq> None \<and> sems k (read_sem_name (hdr obj)) \<noteq> None \<and>
           m_name r = m_name a \<and> m_total_size r = st_size obj \<and>
           m_buffer_count r = buffer_count (hdr obj) \<and> m_buffer_size r = buffer_size (hdr obj) \<and>
           m_mapped_memory r = MappedAt (shm_name a) \<and>
           m_write_sem r = Some (write_sem_name (hdr obj)) \<and>
           m_read_sem r = Some (read_sem_name (hdr obj)) \<and>
           \<not> m_is_writer r \<and> m_is_attached r \<and> m_stats r = m_stats a \<and>
           k' = k\<lparr>shm := (shm k)(shm_name a \<mapsto>
                   obj\<lparr>hdr := (hdr obj)\<lparr>reader_count := reader_count (hdr obj) + 1\<rparr>\<rparr>)\<rparr>"
proof -
  obtain a1 where c: "AttachSharedMemory flt a k = (True, a1)"
    using assms by (cases "AttachSharedMemory flt a k") (auto simp: AttachReader_def split: if_splits)
  from AttachSharedMemory_True [OF c] obtain obj where
    o: "shm k (shm_name a) = Some obj" "st_size obj \<noteq> 0"
      "magic (hdr obj) = MAGIC_NUMBER" "version (hdr obj) = VERSION"
      "a1 = a\<lparr>m_shm_fd := Some (shm_name a), m_total_size := st_size obj,
                  m_mapped_memory := MappedAt (shm_name a),
                  m_buffer_count := buffer_count (hdr obj),
                  m_buffer_size := buffer_size (hdr obj)\<rparr>"
    by blast
  have n: "shm_name a1 = shm_name a" unfolding o(5) by (simp add: shm_name_def)
  have h: "header_of a1 k = Some (hdr obj)" unfolding o(5) using o(1) by (simp add: header_of_def)
  have "(if sem_open_existing (sem_open_write_fails flt) (write_sem_name (hdr obj)) k = None \<or>
            sem_open_existing (sem_open_read_fails flt) (read_sem_name (hdr obj)) k = None
         then Return (False,
                a1\<lparr>m_is_writer := False, m_is_attached := True,
                   m_write_sem := sem_open_existing (sem_open_write_fails flt) (write_sem_name (hdr obj)) k,
                   m_read_sem := sem_open_existing (sem_open_read_fails flt) (read_sem_name (hdr obj)) k\<rparr>, k)
         else Return (True,
                a1\<lparr>m_is_writer := False, m_is_attached := True,
                   m_write_sem := sem_open_existing (sem_open_write_fails flt) (write_sem_name (hdr obj)) k,
                   m_read_sem := sem_open_existing (sem_open_read_fails flt) (read_sem_name (hdr obj)) k\<rparr>,
                store_header (shm_name a) ((hdr obj)\<lparr>reader_count := reader_count (hdr obj) + 1\<rparr>) k))
        = Return (True, r, k')"
    using assms by (simp add: AttachReader_def c h n Let_def split: if_splits)
  then show ?thesis
    using o(1-4)
    by (auto simp: o(5) sem_open_existing_def store_header_def split: if_splits)
qed

lemmas ex_defs = ex_consumer_def ex_producer_def ex_handle_def ex_stats_def ex_ring_def
  ex_header_def ex_empty_slots_def ex_created_def ex_attached_def ex_stray_token_def
  ex_published_def ex_kernel_def ex_stale_kernel_def ex_abi_def ex_corrupt_def
  ex_corrupt_header_def ex_bad_magic_def ex_small_handle_def

section \<open>Properties of consume\<close>

text \<open>
  C6. A consume that takes a ready token (the ready semaphore holds \<open>Suc c\<close> tokens) and
  then finds the slot at index \<open>read_sequence mod buffer_count\<close> flagged not ready posts one
  token on the free semaphore and returns the error \<open>IOError "Buffer not ready"\<close> (the
  code's inconsistent-state error). The handle and the whole shared memory, so
  \<open>read_sequence\<close>, the ready flag and \<open>data_size\<close> of the slot, are as before, and no batch
  is returned. The free semaphore holds fewer than \<open>SEM_VALUE_MAX\<close> tokens before the call:
  at the ceiling \<open>sem_post\<close> fails and adds none.
\<close>

theorem consume_not_ready_returns_token:
  assumes "\<not> m_is_writer a" and "m_is_attached a"
    and "m_mapped_memory a = MappedAt nm" and "shm k nm = Some obj"
    and "m_buffer_count a \<noteq> 0"
    and "m_read_sem a = Some rn" and "sems k rn = Some (Suc c)"
    and "m_write_sem a = Some wn" and "sems k wn = Some f" and "wn \<noteq> rn"
    and "\<not> ready (buffer_states (hdr obj) (read_sequence (hdr obj) mod m_buffer_count a))"
    and "f < SEM_VALUE_MAX"
  shows "\<exists>k'. ReadRecordBatch rd intr timeout_ms a k =
                Return (Inl (Status IOError ''Buffer not ready''), a, k') \<and>
              sems k' wn = Some (Suc f) \<and> sems k' rn = Some c \<and> shm k' = shm k"
  using consume_not_ready [OF assms(1-11), of rd intr timeout_ms] assms(10) assms(12) by simp

theorem consume_not_ready_returns_token_witness:
  "sems ex_stray_token ''/qads_r_t1'' = Some (Suc 0) \<and>
   sems ex_stray_token ''/qads_w_t1'' = Some 2 \<and> 2 < SEM_VALUE_MAX \<and>
   \<not> ready (buffer_states (ex_header 0 0 1 ex_empty_slots) (0 mod 2)) \<and>
   (\<exists>k'. ReadRecordBatch ex_ipc_reader False 1000 ex_consumer ex_stray_token =
            Return (Inl (Status IOError ''Buffer not ready''), ex_consumer, k') \<and>
          sems k' ''/qads_w_t1'' = Some 3 \<and> sems k' ''/qads_r_t1'' = Some 0 \<and>
          shm k' = shm ex_stray_token)"
proof -
  let ?obj = "\<lparr>st_size = 2368, hdr = ex_header 0 0 1 ex_empty_slots, payload = (\<lambda>_. [])\<rparr>"
  have "\<exists>k'. ReadRecordBatch ex_ipc_reader False 1000 ex_consumer ex_stray_token =
            Return (Inl (Status IOError ''Buffer not ready''), ex_consumer, k') \<and>
          sems k' ''/qads_w_t1'' = Some (Suc 2) \<and> sems k' ''/qads_r_t1'' = Some 0 \<and>
          shm k' = shm ex_stray_token"
    by (rule consume_not_ready_returns_token [where nm = "''/qads_t1''" and obj = ?obj])
      (simp_all add: ex_defs SEM_VALUE_MAX_def)
  then show ?thesis by (simp add: ex_defs SEM_VALUE_MAX_def)
qed

text \<open>
  C10. A consume that finds the slot ready but cannot deserialize its bytes still consumes
  the slot: the ready flag of the slot is cleared, \<open>read_sequence\<close> is incremented and one
  free token is posted, so the batch is dropped from the ring. The call returns the error
  and the handle as it was: \<open>bytes_read\<close> and \<open>reads_count\<close> do not change. The free
  semaphore holds fewer than \<open>SEM_VALUE_MAX\<close> tokens before the call, and the \<open>data_size\<close>
  bytes the deserialization reads lie inside the region.
\<close>

theorem consume_deserialize_failure_drops_slot:
  assumes "\<not> m_is_writer a" and "m_is_attached a"
    and "m_mapped_memory a = MappedAt nm" and "shm k nm = Some obj"
    and "m_buffer_count a \<noteq> 0"
    and "m_read_sem a = Some rn" and "sems k rn = Some (Suc c)"
    and "m_write_sem a = Some wn" and "sems k wn = Some f" and "wn \<noteq> rn"
    and "ready (buffer_states (hdr obj) (read_sequence (hdr obj) mod m_buffer_count a))"
    and "DeserializeRecordBatch rd
           (payload obj (buffers_offset (hdr obj) +
              read_sequence (hdr obj) mod m_buffer_count a * m_buffer_size a))
           (data_size (buffer_states (hdr obj) (read_sequence (hdr obj) mod m_buffer_count a))) = Inl e"
    and "f < SEM_VALUE_MAX"
    and "slot_bytes_in_region a obj (read_sequence (hdr obj) mod m_buffer_count a)
           (unat (data_size (buffer_states (hdr obj) (read_sequence (hdr obj) mod m_buffer_count a))))"
  shows "\<exists>k' obj'. ReadRecordBatch rd intr timeout_ms a k = Return (Inl e, a, k') \<and>
           shm k' nm = Some obj' \<and>
           \<not> ready (buffer_states (hdr obj') (read_sequence (hdr obj) mod m_buffer_count a)) \<and>
           read_sequence (hdr obj') = read_sequence (hdr obj) + 1 \<and>
           write_sequence (hdr obj') = write_sequence (hdr obj) \<and>
           sems k' wn = Some (Suc f) \<and> sems k' rn = Some c"
  using consume_ready [OF assms(1-11) assms(12) [symmetric], of intr timeout_ms] assms(10) assms(13)
  by simp

theorem consume_deserialize_failure_drops_slot_witness:
  "ready (buffer_states (ex_header 1 0 1
      (ex_empty_slots(0 := \<lparr>data_size = 1, ready = True, timestamp = 5\<rparr>))) (0 mod 2)) \<and>
   DeserializeRecordBatch ex_ipc_reader [0] 1 = Inl (Status Invalid ''Not an IPC stream'') \<and>
   sems (ex_published [0]) ''/qads_w_t1'' = Some 1 \<and> 1 < SEM_VALUE_MAX \<and>
   (\<exists>k' obj'. ReadRecordBatch ex_ipc_reader False 1000 ex_consumer (ex_published [0]) =
        Return (Inl (Status Invalid ''Not an IPC stream''), ex_consumer, k') \<and>
      shm k' ''/qads_t1'' = Some obj' \<and>
      \<not> ready (buffer_states (hdr obj') 0) \<and> read_sequence (hdr obj') = 1 \<and>
      sems k' ''/qads_w_t1'' = Some 2 \<and> sems k' ''/qads_r_t1'' = Some 0)"
proof -
  let ?obj = "\<lparr>st_size = 2368, hdr = ex_header 1 0 1
                 (ex_empty_slots(0 := \<lparr>data_size = 1, ready = True, timestamp = 5\<rparr>)),
               payload = (\<lambda>_. [])(320 := [0])\<rparr>"
  have d: "DeserializeRecordBatch ex_ipc_reader [0] 1 = Inl (Status Invalid ''Not an IPC stream'')"
    by (simp add: DeserializeRecordBatch_def ex_ipc_reader_def)
  have "\<exists>k' obj'. ReadRecordBatch ex_ipc_reader False 1000 ex_consumer (ex_published [0]) =
        Return (Inl (Status Invalid ''Not an IPC stream''), ex_consumer, k') \<and>
      shm k' ''/qads_t1'' = Some obj' \<and>
      \<not> ready (buffer_states (hdr obj')
          (read_sequence (hdr ?obj) mod m_buffer_count ex_consumer)) \<and>
      read_sequence (hdr obj') = read_sequence (hdr ?obj) + 1 \<and>
      write_sequence (hdr obj') = write_sequence (hdr ?obj) \<and>
      sems k' ''/qads_w_t1'' = Some (Suc 1) \<and> sems k' ''/qads_r_t1'' = Some 0"
    by (rule consume_deserialize_failure_drops_slot [where rn = "''/qads_r_t1''"])
      (simp_all add: ex_defs d SEM_VALUE_MAX_def slot_bytes_in_region_def)
  then obtain k' obj' where
    "ReadRecordBatch ex_ipc_reader False 1000 ex_consumer (ex_published [0]) =
        Return (Inl (Status Invalid ''Not an IPC stream''), ex_consumer, k')"
    "shm k' ''/qads_t1'' = Some obj'"
    "\<not> ready (buffer_states (hdr obj')
          (read_sequence (hdr ?obj) mod m_buffer_count ex_consumer))"
    "read_sequence (hdr obj') = read_sequence (hdr ?obj) + 1"
    "sems k' ''/qads_w_t1'' = Some (Suc 1)" "sems k' ''/qads_r_t1'' = Some 0"
    by blast
  then have "ReadRecordBatch ex_ipc_reader False 1000 ex_consumer (ex_published [0]) =
        Return (Inl (Status Invalid ''Not an IPC stream''), ex_consumer, k') \<and>
      shm k' ''/qads_t1'' = Some obj' \<and>
      \<not> ready (buffer_states (hdr obj') 0) \<and> read_sequence (hdr obj') = 1 \<and>
      sems k' ''/qads_w_t1'' = Some 2 \<and> sems k' ''/qads_r_t1'' = Some 0"
    by (simp add: ex_defs)
  then have "\<exists>k' obj'. ReadRecordBatch ex_ipc_reader False 1000 ex_consumer (ex_published [0]) =
        Return (Inl (Status Invalid ''Not an IPC stream''), ex_consumer, k') \<and>
      shm k' ''/qads_t1'' = Some obj' \<and>
      \<not> ready (buffer_states (hdr obj') 0) \<and> read_sequence (hdr obj') = 1 \<and>
      sems k' ''/qads_w_t1'' = Some 2 \<and> sems k' ''/qads_r_t1'' = Some 0"
    by blast
  moreover have "ready (buffer_states (ex_header 1 0 1
      (ex_empty_slots(0 := \<lparr>data_size = 1, ready = True, timestamp = 5\<rparr>))) (0 mod 2))"
    by (simp add: ex_defs)
  moreover have "sems (ex_published [0]) ''/qads_w_t1'' = Some 1" "(1 :: nat) < SEM_VALUE_MAX"
    by (simp_all add: ex_defs SEM_VALUE_MAX_def)
  ultimately show ?thesis using d by blast
qed

section \<open>Properties of produce\<close>

text \<open>
  C1. When the serialization into the slot fails, \<open>WriteRecordBatch\<close> returns the error and
  publishes nothing: the header (\<open>write_sequence\<close>, the ready flag and \<open>data_size\<close> of every
  slot) and the handle are as before. The free token taken by the wait is not given back:
  the free semaphore holds \<open>f\<close> tokens after the call, one fewer than the \<open>Suc f\<close> before it.
\<close>

theorem produce_serialize_failure_keeps_token:
  assumes "m_is_writer a" and "m_is_attached a"
    and "m_mapped_memory a = MappedAt nm" and "shm k nm = Some obj"
    and "m_buffer_count a \<noteq> 0"
    and "m_write_sem a = Some wn" and "sems k wn = Some (Suc f)"
    and "wr batch (m_buffer_size a) = (st, bytes)" and "\<not> ok st"
  shows "\<exists>k' obj'. WriteRecordBatch wr intr now batch a k = Return (st, a, k') \<and>
           sems k' wn = Some f \<and> shm k' nm = Some obj' \<and> hdr obj' = hdr obj"
  using produce_fail [where wr = wr and batch = batch and a = a and k = k and intr = intr
      and now = now, OF assms]
  by simp

theorem produce_serialize_failure_keeps_token_witness:
  "sems ex_attached ''/qads_w_t1'' = Some (Suc 1) \<and>
   ex_ipc_writer (replicate 2048 0xFF) 1024 =
     (Status IOError ''Write out of bounds'', replicate 1024 0xFF) \<and>
   (\<exists>k' obj'. WriteRecordBatch ex_ipc_writer False 5 (replicate 2048 0xFF) ex_producer ex_attached =
        Return (Status IOError ''Write out of bounds'', ex_producer, k') \<and>
      sems k' ''/qads_w_t1'' = Some 1 \<and> shm k' ''/qads_t1'' = Some obj' \<and>
      hdr obj' = ex_header 0 0 1 ex_empty_slots)"
proof -
  let ?obj = "\<lparr>st_size = 2368, hdr = ex_header 0 0 1 ex_empty_slots, payload = (\<lambda>_. [])\<rparr>"
  have w: "ex_ipc_writer (replicate 2048 0xFF) 1024 =
     (Status IOError ''Write out of bounds'', replicate 1024 0xFF)"
    by (simp add: ex_ipc_writer_def)
  have "\<exists>k' obj'. WriteRecordBatch ex_ipc_writer False 5 (replicate 2048 0xFF) ex_producer ex_attached =
        Return (Status IOError ''Write out of bounds'', ex_producer, k') \<and>
      sems k' ''/qads_w_t1'' = Some 1 \<and> shm k' ''/qads_t1'' = Some obj' \<and>
      hdr obj' = hdr ?obj"
    by (rule produce_serialize_failure_keeps_token [where bytes = "replicate 1024 0xFF"])
      (simp_all add: ex_defs w)
  then have "\<exists>k' obj'. WriteRecordBatch ex_ipc_writer False 5 (replicate 2048 0xFF) ex_producer ex_attached =
        Return (Status IOError ''Write out of bounds'', ex_producer, k') \<and>
      sems k' ''/qads_w_t1'' = Some 1 \<and> shm k' ''/qads_t1'' = Some obj' \<and>
      hdr obj' = ex_header 0 0 1 ex_empty_slots"
    by simp
  moreover have "sems ex_attached ''/qads_w_t1'' = Some (Suc 1)"
    by (simp add: ex_defs)
  ultimately show ?thesis using w by blast
qed

text \<open>
  On the ring of two slots, two produce calls that fail in the serialization use up both
  free tokens: the header still shows two empty slots, and the next produce, of a batch
  that fits, blocks.
\<close>

lemma failed_produces_block_the_producer:
  "\<exists>k1 k2.
     WriteRecordBatch ex_ipc_writer False 5 (replicate 2048 0xFF) ex_producer ex_attached =
       Return (Status IOError ''Write out of bounds'', ex_producer, k1) \<and>
     WriteRecordBatch ex_ipc_writer False 6 (replicate 2048 0xFF) ex_producer k1 =
       Return (Status IOError ''Write out of bounds'', ex_producer, k2) \<and>
     map_option hdr (shm k2 ''/qads_t1'') = Some (ex_header 0 0 1 ex_empty_slots) \<and>
     sems k2 ''/qads_w_t1'' = Some 0 \<and>
     WriteRecordBatch ex_ipc_writer False 7 [0xFF] ex_producer k2 = Block"
proof -
  let ?obj = "\<lparr>st_size = 2368, hdr = ex_header 0 0 1 ex_empty_slots, payload = (\<lambda>_. [])\<rparr>"
  let ?obj1 = "?obj\<lparr>payload := (payload ?obj)
      (buffers_offset (hdr ?obj) + write_sequence (hdr ?obj) mod m_buffer_count ex_producer * m_buffer_size ex_producer
         := replicate 1024 0xFF)\<rparr>"
  let ?k1 = "ex_attached\<lparr>shm := (shm ex_attached)(''/qads_t1'' \<mapsto> ?obj1),
                 sems := (sems ex_attached)(''/qads_w_t1'' \<mapsto> Suc 0)\<rparr>"
  let ?obj2 = "?obj1\<lparr>payload := (payload ?obj1)
      (buffers_offset (hdr ?obj1) + write_sequence (hdr ?obj1) mod m_buffer_count ex_producer * m_buffer_size ex_producer
         := replicate 1024 0xFF)\<rparr>"
  let ?k2 = "?k1\<lparr>shm := (shm ?k1)(''/qads_t1'' \<mapsto> ?obj2),
                 sems := (sems ?k1)(''/qads_w_t1'' \<mapsto> 0)\<rparr>"
  have w: "ex_ipc_writer (replicate 2048 0xFF) (m_buffer_size ex_producer) =
     (Status IOError ''Write out of bounds'', replicate 1024 0xFF)"
    by (simp add: ex_ipc_writer_def ex_defs)
  have 1: "WriteRecordBatch ex_ipc_writer False 5 (replicate 2048 0xFF) ex_producer ex_attached =
       Return (Status IOError ''Write out of bounds'', ex_producer, ?k1)"
    by (rule produce_fail [where wr = ex_ipc_writer and batch = "replicate 2048 0xFF"
          and bytes = "replicate 1024 0xFF"])
      (simp_all add: ex_defs w [simplified ex_defs, simplified])
  have 2: "WriteRecordBatch ex_ipc_writer False 6 (replicate 2048 0xFF) ex_producer ?k1 =
       Return (Status IOError ''Write out of bounds'', ex_producer, ?k2)"
    by (rule produce_fail [where wr = ex_ipc_writer and batch = "replicate 2048 0xFF"
          and bytes = "replicate 1024 0xFF"])
      (simp_all add: ex_defs w [simplified ex_defs, simplified])
  have 3: "WriteRecordBatch ex_ipc_writer False 7 [0xFF] ex_producer ?k2 = Block"
    by (simp add: WriteRecordBatch_def sem_wait_def ex_defs)
  have 4: "map_option hdr (shm ?k2 ''/qads_t1'') = Some (ex_header 0 0 1 ex_empty_slots)"
    "sems ?k2 ''/qads_w_t1'' = Some 0"
    by simp_all
  from 1 2 3 4 show ?thesis by blast
qed

section \<open>Slot order\<close>





section \<open>Properties of attach\<close>

lemma ex_new: "SharedMemoryArena_new ex_abi ''t1'' 2368 2 = Some ex_handle"
  by (simp add: SharedMemoryArena_new_def CACHE_LINE_SIZE_def ex_defs)

lemma ex_new_small: "SharedMemoryArena_new ex_abi ''t1'' 64 2 = Some ex_small_handle"
  by (simp add: SharedMemoryArena_new_def CACHE_LINE_SIZE_def ex_defs)

lemma c_str_t1 [simp]: "c_str ''/qads_t1'' = ''/qads_t1''" "c_str ''t1'' = ''t1''"
  by (simp_all add: c_str_def)

lemma CreateWriter_no_faults:
  assumes "\<not> m_is_attached a" and "shm k (shm_name a) = None"
    and "m_total_size a \<noteq> 0" and "m_total_size a < 2 ^ 63"
    and "unat (m_buffer_count a) \<le> SEM_VALUE_MAX"
  shows "CreateWriter L no_faults a k =
     (True,
      a\<lparr>m_shm_fd := Some (shm_name a), m_mapped_memory := MappedAt (shm_name a),
        m_is_writer := True, m_is_attached := True,
        m_write_sem := Some (snprintf_64 ''/qads_w_'' (m_name a)),
        m_read_sem := Some (snprintf_64 ''/qads_r_'' (m_name a))\<rparr>,
      k\<lparr>shm := (shm k)(shm_name a \<mapsto>
            \<lparr>st_size = m_total_size a,
             hdr = (InitializeHeader L a)
                     \<lparr>write_sem_name := snprintf_64 ''/qads_w_'' (m_name a),
                      read_sem_name := snprintf_64 ''/qads_r_'' (m_name a),
                      writer_active := True\<rparr>,
             payload = (\<lambda>_. [])\<rparr>),
         sems := (sems k)(snprintf_64 ''/qads_w_'' (m_name a) \<mapsto> unat (m_buffer_count a),
                         snprintf_64 ''/qads_r_'' (m_name a) \<mapsto> 0)\<rparr>)"
proof -
  have c: "CreateSharedMemory no_faults a k =
      (True, a\<lparr>m_shm_fd := Some (shm_name a), m_mapped_memory := MappedAt (shm_name a)\<rparr>,
       k\<lparr>shm := (shm k)(shm_name a \<mapsto> zero_object (m_total_size a))\<rparr>)"
    using assms by (simp add: CreateSharedMemory_def no_faults_def Let_def not_le)
  show ?thesis
    using assms(1,5) snprintf_distinct [of "m_name a" "m_name a"]
    unfolding CreateWriter_def c
    by (simp add: sem_open_excl_def sem_unlink_def store_header_def zero_object_def Let_def
        no_faults_def)
qed

lemma snprintf_t1 [simp]:
  "snprintf_64 ''/qads_w_'' ''t1'' = ''/qads_w_t1''"
  "snprintf_64 ''/qads_r_'' ''t1'' = ''/qads_r_t1''"
  by (simp_all add: snprintf_64_def c_str_def)

lemma shm_name_ex [simp]: "shm_name ex_handle = ''/qads_t1''" "shm_name ex_small_handle = ''/qads_t1''"
  by (simp_all add: shm_name_def c_str_def ex_defs)

lemma ex_create: "CreateWriter ex_abi no_faults ex_handle ex_kernel = (True, ex_producer, ex_created)"
proof -
  have h: "\<not> m_is_attached ex_handle" "shm ex_kernel (shm_name ex_handle) = None"
    "m_total_size ex_handle \<noteq> 0" "m_total_size ex_handle < 2 ^ 63"
    "unat (m_buffer_count ex_handle) \<le> SEM_VALUE_MAX"
    by (simp_all add: ex_defs SEM_VALUE_MAX_def)
  show ?thesis
    unfolding CreateWriter_no_faults [OF h] InitializeHeader_eq
    by (simp add: ex_defs MAGIC_NUMBER_def VERSION_def shm_name_def c_str_def snprintf_64_def)
qed

lemma ex_create_stale:
  "CreateWriter ex_abi no_faults ex_handle ex_stale_kernel = (True, ex_producer, ex_created)"
proof -
  have h: "\<not> m_is_attached ex_handle" "shm ex_stale_kernel (shm_name ex_handle) = None"
    "m_total_size ex_handle \<noteq> 0" "m_total_size ex_handle < 2 ^ 63"
    "unat (m_buffer_count ex_handle) \<le> SEM_VALUE_MAX"
    by (simp_all add: ex_defs SEM_VALUE_MAX_def)
  show ?thesis
    unfolding CreateWriter_no_faults [OF h] InitializeHeader_eq
    by (simp add: ex_defs MAGIC_NUMBER_def VERSION_def shm_name_def c_str_def snprintf_64_def)
qed

lemma ex_create_small:
  "CreateWriter ex_abi no_faults ex_small_handle ex_kernel =
     (True, ex_producer\<lparr>m_total_size := 64, m_buffer_size := 9223372036854775680\<rparr>,
      ex_kernel\<lparr>shm := [''/qads_t1'' \<mapsto> \<lparr>st_size = 64,
          hdr = (ex_header 0 0 0 ex_empty_slots)\<lparr>total_size := 64, buffer_size := 9223372036854775680\<rparr>,
          payload = (\<lambda>_. [])\<rparr>],
        sems := [''/qads_w_t1'' \<mapsto> 2, ''/qads_r_t1'' \<mapsto> 0]\<rparr>)"
proof -
  have h: "\<not> m_is_attached ex_small_handle" "shm ex_kernel (shm_name ex_small_handle) = None"
    "m_total_size ex_small_handle \<noteq> 0" "m_total_size ex_small_handle < 2 ^ 63"
    "unat (m_buffer_count ex_small_handle) \<le> SEM_VALUE_MAX"
    by (simp_all add: ex_defs SEM_VALUE_MAX_def)
  show ?thesis
    unfolding CreateWriter_no_faults [OF h] InitializeHeader_eq
    by (simp add: ex_defs MAGIC_NUMBER_def VERSION_def shm_name_def c_str_def snprintf_64_def)
qed

lemma AttachReader_no_faults:
  assumes "\<not> m_is_attached a" and "shm k (shm_name a) = Some obj" and "st_size obj \<noteq> 0"
    and "magic (hdr obj) = MAGIC_NUMBER" and "version (hdr obj) = VERSION"
    and "sems k (write_sem_name (hdr obj)) \<noteq> None" and "sems k (read_sem_name (hdr obj)) \<noteq> None"
  shows "AttachReader no_faults a k =
     Return (True,
       a\<lparr>m_shm_fd := Some (shm_name a), m_total_size := st_size obj,
         m_mapped_memory := MappedAt (shm_name a),
         m_buffer_count := buffer_count (hdr obj), m_buffer_size := buffer_size (hdr obj),
         m_is_writer := False, m_is_attached := True,
         m_write_sem := Some (write_sem_name (hdr obj)),
         m_read_sem := Some (read_sem_name (hdr obj))\<rparr>,
       k\<lparr>shm := (shm k)(shm_name a \<mapsto>
            obj\<lparr>hdr := (hdr obj)\<lparr>reader_count := reader_count (hdr obj) + 1\<rparr>\<rparr>)\<rparr>)"
proof -
  have c: "AttachSharedMemory no_faults a k =
      (True, a\<lparr>m_shm_fd := Some (shm_name a), m_total_size := st_size obj,
                  m_mapped_memory := MappedAt (shm_name a),
                  m_buffer_count := buffer_count (hdr obj),
                  m_buffer_size := buffer_size (hdr obj)\<rparr>)"
    using assms by (simp add: AttachSharedMemory_def no_faults_def Let_def)
  show ?thesis
    using assms unfolding AttachReader_def c
    by (auto simp: header_of_def sem_open_existing_def store_header_def no_faults_def
        shm_name_def Let_def)
qed

lemma ex_attach: "AttachReader no_faults ex_handle ex_created = Return (True, ex_consumer, ex_attached)"
  by (subst AttachReader_no_faults
        [where obj = "\<lparr>st_size = 2368, hdr = ex_header 0 0 0 ex_empty_slots, payload = (\<lambda>_. [])\<rparr>"])
    (simp_all add: ex_defs MAGIC_NUMBER_def VERSION_def shm_name_def c_str_def)

lemma AttachReader_bad_header:
  assumes "\<not> m_is_attached a" and "shm k (shm_name a) = Some obj"
    and "\<not> shm_open_fails flt" and "\<not> fstat_fails flt" and "\<not> mmap_fails flt"
    and "st_size obj \<noteq> 0"
    and "magic (hdr obj) \<noteq> MAGIC_NUMBER \<or> version (hdr obj) \<noteq> VERSION"
  shows "AttachReader flt a k =
           Return (False, a\<lparr>m_shm_fd := Some (shm_name a), m_total_size := st_size obj,
                             m_mapped_memory := Unmapped (shm_name a)\<rparr>, k)"
  using assms by (auto simp: AttachReader_def AttachSharedMemory_def Let_def)

lemma AttachReader_good_header:
  assumes "\<not> m_is_attached a" and "shm k (shm_name a) = Some obj"
    and "\<not> shm_open_fails flt" and "\<not> fstat_fails flt" and "\<not> mmap_fails flt"
    and "st_size obj \<noteq> 0"
    and "magic (hdr obj) = MAGIC_NUMBER" and "version (hdr obj) = VERSION"
    and "\<not> sem_open_write_fails flt" and "\<not> sem_open_read_fails flt"
    and "sems k (write_sem_name (hdr obj)) \<noteq> None" and "sems k (read_sem_name (hdr obj)) \<noteq> None"
  shows "AttachReader flt a k =
     Return (True,
       a\<lparr>m_shm_fd := Some (shm_name a), m_total_size := st_size obj,
         m_mapped_memory := MappedAt (shm_name a),
         m_buffer_count := buffer_count (hdr obj), m_buffer_size := buffer_size (hdr obj),
         m_is_writer := False, m_is_attached := True,
         m_write_sem := Some (write_sem_name (hdr obj)),
         m_read_sem := Some (read_sem_name (hdr obj))\<rparr>,
       k\<lparr>shm := (shm k)(shm_name a \<mapsto>
            obj\<lparr>hdr := (hdr obj)\<lparr>reader_count := reader_count (hdr obj) + 1\<rparr>\<rparr>)\<rparr>)"
proof -
  have c: "AttachSharedMemory flt a k =
      (True, a\<lparr>m_shm_fd := Some (shm_name a), m_total_size := st_size obj,
                  m_mapped_memory := MappedAt (shm_name a),
                  m_buffer_count := buffer_count (hdr obj),
                  m_buffer_size := buffer_size (hdr obj)\<rparr>)"
    using assms by (simp add: AttachSharedMemory_def Let_def)
  show ?thesis
    using assms unfolding AttachReader_def c
    by (auto simp: header_of_def sem_open_existing_def store_header_def
        shm_name_def Let_def)
qed

text \<open>
  C4 (as the code has it). After a producer attach the header holds: \<open>header_size\<close>, the
  sum \<open>sizeof(Header) + buffer_count * sizeof(SlotState)\<close> as it is, not rounded;
  \<open>buffers_offset\<close>, that sum rounded up to the next multiple of 64; \<open>buffer_size\<close>,
  \<open>(total_size - buffers_offset) / buffer_count\<close> rounded down to a multiple of 64. All of it
  is 64-bit unsigned arithmetic, the subtraction included.
\<close>

theorem producer_header_geometry:
  assumes "SharedMemoryArena_new L name sz bc = Some a"
    and "CreateWriter L flt a k = (True, w, k')"
  shows "\<exists>obj. shm k' (shm_name a) = Some obj \<and>
           total_size (hdr obj) = sz \<and> buffer_count (hdr obj) = bc \<and>
           header_size (hdr obj) = sizeof_SharedMemoryHeader L + sizeof_BufferState L * bc \<and>
           buffers_offset (hdr obj) = (header_size (hdr obj) + 63) AND NOT 63 \<and>
           unat (buffers_offset (hdr obj)) =
             (unat (header_size (hdr obj)) + 63) mod 2 ^ 64 div 64 * 64 \<and>
           buffer_size (hdr obj) = ((sz - buffers_offset (hdr obj)) div bc) AND NOT 63 \<and>
           unat (buffer_size (hdr obj)) =
             unat (sz - buffers_offset (hdr obj)) div unat bc div 64 * 64"
proof -
  note n = new_fields [OF assms(1)]
  note c = CreateWriter_True [OF assms(2)]
  have "unat (((sz - ((sizeof_SharedMemoryHeader L + sizeof_BufferState L * bc + 63) AND NOT 63)) div bc) AND NOT 63) =
      unat (sz - ((sizeof_SharedMemoryHeader L + sizeof_BufferState L * bc + 63) AND NOT 63)) div unat bc div 64 * 64"
    unfolding and_not_63 by (simp add: unat_div)
  moreover have "unat ((sizeof_SharedMemoryHeader L + sizeof_BufferState L * bc + 63) AND NOT 63) =
      (unat (sizeof_SharedMemoryHeader L + sizeof_BufferState L * bc) + 63) mod 2 ^ 64 div 64 * 64"
    by (rule align_up_63)
  ultimately show ?thesis
    unfolding c(6) by (simp add: n)
qed

theorem producer_header_geometry_witness:
  "SharedMemoryArena_new ex_abi ''t1'' 2368 2 = Some ex_handle \<and>
   CreateWriter ex_abi no_faults ex_handle ex_kernel = (True, ex_producer, ex_created) \<and>
   (\<exists>obj. shm ex_created ''/qads_t1'' = Some obj \<and>
      total_size (hdr obj) = 2368 \<and> buffer_count (hdr obj) = 2 \<and>
      header_size (hdr obj) = 290 \<and> buffers_offset (hdr obj) = 320 \<and>
      unat (buffers_offset (hdr obj)) = (290 + 63) div 64 * 64 \<and>
      buffer_size (hdr obj) = 1024 \<and>
      unat (buffer_size (hdr obj)) = (2368 - 320) div 2 div 64 * 64)"
proof -
  from producer_header_geometry [OF ex_new ex_create] obtain obj where
    "shm ex_created ''/qads_t1'' = Some obj"
    "total_size (hdr obj) = 2368" "buffer_count (hdr obj) = 2"
    "header_size (hdr obj) = 290" "buffers_offset (hdr obj) = 320"
    "unat (buffers_offset (hdr obj)) = (290 + 63) div 64 * 64"
    "buffer_size (hdr obj) = 1024"
    "unat (buffer_size (hdr obj)) = (2368 - 320) div 2 div 64 * 64"
    by (auto simp: ex_abi_def)
  with ex_new ex_create show ?thesis by blast
qed

text \<open>
  The spec's sentence, with \<open>header_size\<close> rounded and \<open>buffers_offset\<close> equal to it, fails
  on the ring of two slots: the sum is 290, the header holds \<open>header_size = 290\<close> and
  \<open>buffers_offset = 320\<close>.
\<close>

theorem header_size_rounded_counterexample:
  "SharedMemoryArena_new ex_abi ''t1'' 2368 2 = Some ex_handle \<and>
   CreateWriter ex_abi no_faults ex_handle ex_kernel = (True, ex_producer, ex_created) \<and>
   map_option (header_size \<circ> hdr) (shm ex_created ''/qads_t1'') = Some 290 \<and>
   (sizeof_SharedMemoryHeader ex_abi + 2 * sizeof_BufferState ex_abi + 63) AND NOT 63 = (320 :: u64) \<and>
   map_option (header_size \<circ> hdr) (shm ex_created ''/qads_t1'') \<noteq>
     Some ((sizeof_SharedMemoryHeader ex_abi + 2 * sizeof_BufferState ex_abi + 63) AND NOT 63) \<and>
   map_option (buffers_offset \<circ> hdr) (shm ex_created ''/qads_t1'') = Some 320 \<and>
   map_option (buffers_offset \<circ> hdr) (shm ex_created ''/qads_t1'') \<noteq>
     map_option (header_size \<circ> hdr) (shm ex_created ''/qads_t1'')"
  using ex_new ex_create by (simp add: ex_defs)

text \<open>
  C5 (as the code has it). After a producer attach with user name \<open>name\<close> the header holds the
  semaphore names \<open>"/qads_w_<name>"\<close> for the free-slots semaphore (\<open>write_sem_\<close>) and
  \<open>"/qads_r_<name>"\<close> for the ready-slots semaphore (\<open>read_sem_\<close>), each cut to 63 characters
  before the terminating NUL. The name goes through \<open>%s\<close> as a C string, which is the whole
  name when it contains no NUL.
\<close>

theorem semaphore_names:
  assumes "SharedMemoryArena_new L name sz bc = Some a"
    and "CreateWriter L flt a k = (True, w, k')"
  shows "\<exists>obj. shm k' (shm_name a) = Some obj \<and>
           write_sem_name (hdr obj) = take 63 (''/qads_w_'' @ c_str name) \<and>
           read_sem_name (hdr obj) = take 63 (''/qads_r_'' @ c_str name) \<and>
           (CHR 0x00 \<notin> set name \<longrightarrow> c_str name = name) \<and>
           length (write_sem_name (hdr obj)) \<le> 63 \<and> length (read_sem_name (hdr obj)) \<le> 63 \<and>
           m_write_sem w = Some (write_sem_name (hdr obj)) \<and>
           m_read_sem w = Some (read_sem_name (hdr obj))"
proof -
  note n = new_fields [OF assms(1)]
  note c = CreateWriter_True [OF assms(2)]
  have "CHR 0x00 \<notin> set name \<longrightarrow> c_str name = name"
    by (auto simp: c_str_def takeWhile_eq_all_conv)
  then show ?thesis
    unfolding c(5) c(6) by (simp add: n snprintf_64_def)
qed

theorem semaphore_names_witness:
  "SharedMemoryArena_new ex_abi ''t1'' 2368 2 = Some ex_handle \<and>
   CreateWriter ex_abi no_faults ex_handle ex_kernel = (True, ex_producer, ex_created) \<and>
   (\<exists>obj. shm ex_created ''/qads_t1'' = Some obj \<and>
      write_sem_name (hdr obj) = ''/qads_w_t1'' \<and> read_sem_name (hdr obj) = ''/qads_r_t1'' \<and>
      m_write_sem ex_producer = Some ''/qads_w_t1'' \<and>
      m_read_sem ex_producer = Some ''/qads_r_t1'')"
proof -
  from semaphore_names [OF ex_new ex_create] obtain obj where
    "shm ex_created ''/qads_t1'' = Some obj"
    "write_sem_name (hdr obj) = ''/qads_w_t1''" "read_sem_name (hdr obj) = ''/qads_r_t1''"
    "m_write_sem ex_producer = Some ''/qads_w_t1''"
    "m_read_sem ex_producer = Some ''/qads_r_t1''"
    by (auto simp: c_str_def)
  with ex_new ex_create show ?thesis by blast
qed

text \<open>
  The spec's name \<open>"/qads_f_<name>"\<close> is not what the header holds, and the kernel has no
  semaphore of that name after the attach.
\<close>

theorem free_semaphore_name_counterexample:
  "SharedMemoryArena_new ex_abi ''t1'' 2368 2 = Some ex_handle \<and>
   CreateWriter ex_abi no_faults ex_handle ex_kernel = (True, ex_producer, ex_created) \<and>
   map_option (write_sem_name \<circ> hdr) (shm ex_created ''/qads_t1'') = Some ''/qads_w_t1'' \<and>
   map_option (write_sem_name \<circ> hdr) (shm ex_created ''/qads_t1'') \<noteq> Some ''/qads_f_t1'' \<and>
   sems ex_created ''/qads_w_t1'' = Some 2 \<and> sems ex_created ''/qads_f_t1'' = None"
  using ex_new ex_create by (simp add: ex_defs)

lemma CreateWriter_succeeds:
  assumes "\<not> m_is_attached a" and "shm k (shm_name a) = None"
    and "m_total_size a \<noteq> 0" and "m_total_size a < 2 ^ 63"
    and "unat (m_buffer_count a) \<le> SEM_VALUE_MAX"
    and "\<not> shm_open_fails flt" and "\<not> ftruncate_fails flt" and "\<not> mmap_fails flt"
    and "\<not> sem_open_write_fails flt" and "\<not> sem_open_read_fails flt"
  shows "CreateWriter L flt a k =
     (True,
      a\<lparr>m_shm_fd := Some (shm_name a), m_mapped_memory := MappedAt (shm_name a),
        m_is_writer := True, m_is_attached := True,
        m_write_sem := Some (snprintf_64 ''/qads_w_'' (m_name a)),
        m_read_sem := Some (snprintf_64 ''/qads_r_'' (m_name a))\<rparr>,
      k\<lparr>shm := (shm k)(shm_name a \<mapsto>
            \<lparr>st_size = m_total_size a,
             hdr = (InitializeHeader L a)
                     \<lparr>write_sem_name := snprintf_64 ''/qads_w_'' (m_name a),
                      read_sem_name := snprintf_64 ''/qads_r_'' (m_name a),
                      writer_active := True\<rparr>,
             payload = (\<lambda>_. [])\<rparr>),
         sems := (sems k)(snprintf_64 ''/qads_w_'' (m_name a) \<mapsto> unat (m_buffer_count a),
                         snprintf_64 ''/qads_r_'' (m_name a) \<mapsto> 0)\<rparr>)"
proof -
  have c: "CreateSharedMemory flt a k =
      (True, a\<lparr>m_shm_fd := Some (shm_name a), m_mapped_memory := MappedAt (shm_name a)\<rparr>,
       k\<lparr>shm := (shm k)(shm_name a \<mapsto> zero_object (m_total_size a))\<rparr>)"
    using assms by (simp add: CreateSharedMemory_def Let_def not_le)
  show ?thesis
    using assms(1,5,9,10) snprintf_distinct [of "m_name a" "m_name a"]
    unfolding CreateWriter_def c
    by (simp add: sem_open_excl_def sem_unlink_def store_header_def zero_object_def Let_def)
qed

text \<open>
  C9. A producer attach unlinks both semaphore names, then creates the free semaphore
  exclusively with the value \<open>buffer_count\<close> and the ready semaphore exclusively with the
  value 0. So it succeeds on every kernel, whatever semaphores the kernel holds under the
  two names or any other (when the region name is free, the size is one \<open>mmap\<close> and
  \<open>ftruncate\<close> accept, \<open>buffer_count\<close> is a value a semaphore can hold, the header with its
  slot states fits the region, and no system call fails for a reason of its own): afterwards
  the free semaphore holds \<open>buffer_count\<close> tokens and the ready semaphore none, every other
  semaphore is as before, and the handle refers to these two.
\<close>

theorem semaphores_created_after_unlink:
  assumes "\<not> m_is_attached a" and "shm k (shm_name a) = None"
    and "m_total_size a \<noteq> 0" and "m_total_size a < 2 ^ 63"
    and "unat (m_buffer_count a) \<le> SEM_VALUE_MAX"
    and "unat (sizeof_SharedMemoryHeader L) + unat (m_buffer_count a) * unat (sizeof_BufferState L)
           \<le> unat (m_total_size a)"
    and "\<not> shm_open_fails flt" and "\<not> ftruncate_fails flt" and "\<not> mmap_fails flt"
    and "\<not> sem_open_write_fails flt" and "\<not> sem_open_read_fails flt"
  shows "\<exists>w k'. CreateWriter L flt a k = (True, w, k') \<and>
           sems k' =
             sems (snd (sem_open_excl False (snprintf_64 ''/qads_r_'' (m_name a)) 0
               (snd (sem_open_excl False (snprintf_64 ''/qads_w_'' (m_name a)) (unat (m_buffer_count a))
                 (sem_unlink (snprintf_64 ''/qads_r_'' (m_name a))
                   (sem_unlink (snprintf_64 ''/qads_w_'' (m_name a)) k)))))) \<and>
           sems k' = (sems k)(snprintf_64 ''/qads_w_'' (m_name a) \<mapsto> unat (m_buffer_count a),
                              snprintf_64 ''/qads_r_'' (m_name a) \<mapsto> 0) \<and>
           sems k' (snprintf_64 ''/qads_w_'' (m_name a)) = Some (unat (m_buffer_count a)) \<and>
           sems k' (snprintf_64 ''/qads_r_'' (m_name a)) = Some 0 \<and>
           m_write_sem w = Some (snprintf_64 ''/qads_w_'' (m_name a)) \<and>
           m_read_sem w = Some (snprintf_64 ''/qads_r_'' (m_name a)) \<and>
           snprintf_64 ''/qads_w_'' (m_name a) \<noteq> snprintf_64 ''/qads_r_'' (m_name a)"
proof -
  note c = CreateWriter_succeeds [OF assms(1-5) assms(7-11), of L]
  note d = snprintf_distinct [of "m_name a" "m_name a"]
  show ?thesis
    unfolding c using d assms(5)
    by (simp add: sem_open_excl_def sem_unlink_def)
qed

theorem semaphores_created_after_unlink_witness:
  "sems ex_stale_kernel ''/qads_w_t1'' = Some 7 \<and> sems ex_stale_kernel ''/qads_r_t1'' = Some 5 \<and>
   (\<exists>w k'. CreateWriter ex_abi no_faults ex_handle ex_stale_kernel = (True, w, k') \<and>
      sems k' ''/qads_w_t1'' = Some 2 \<and> sems k' ''/qads_r_t1'' = Some 0 \<and>
      m_write_sem w = Some ''/qads_w_t1'' \<and> m_read_sem w = Some ''/qads_r_t1'')"
proof -
  have "\<exists>w k'. CreateWriter ex_abi no_faults ex_handle ex_stale_kernel = (True, w, k') \<and>
           sems k' =
             sems (snd (sem_open_excl False (snprintf_64 ''/qads_r_'' (m_name ex_handle)) 0
               (snd (sem_open_excl False (snprintf_64 ''/qads_w_'' (m_name ex_handle)) (unat (m_buffer_count ex_handle))
                 (sem_unlink (snprintf_64 ''/qads_r_'' (m_name ex_handle))
                   (sem_unlink (snprintf_64 ''/qads_w_'' (m_name ex_handle)) ex_stale_kernel)))))) \<and>
           sems k' = (sems ex_stale_kernel)(snprintf_64 ''/qads_w_'' (m_name ex_handle) \<mapsto> unat (m_buffer_count ex_handle),
                              snprintf_64 ''/qads_r_'' (m_name ex_handle) \<mapsto> 0) \<and>
           sems k' (snprintf_64 ''/qads_w_'' (m_name ex_handle)) = Some (unat (m_buffer_count ex_handle)) \<and>
           sems k' (snprintf_64 ''/qads_r_'' (m_name ex_handle)) = Some 0 \<and>
           m_write_sem w = Some (snprintf_64 ''/qads_w_'' (m_name ex_handle)) \<and>
           m_read_sem w = Some (snprintf_64 ''/qads_r_'' (m_name ex_handle)) \<and>
           snprintf_64 ''/qads_w_'' (m_name ex_handle) \<noteq> snprintf_64 ''/qads_r_'' (m_name ex_handle)"
    by (rule semaphores_created_after_unlink)
      (simp_all add: ex_defs SEM_VALUE_MAX_def no_faults_def shm_name_def c_str_def)
  then obtain w k' where
    "CreateWriter ex_abi no_faults ex_handle ex_stale_kernel = (True, w, k')"
    "sems k' (snprintf_64 ''/qads_w_'' (m_name ex_handle)) = Some (unat (m_buffer_count ex_handle))"
    "sems k' (snprintf_64 ''/qads_r_'' (m_name ex_handle)) = Some 0"
    "m_write_sem w = Some (snprintf_64 ''/qads_w_'' (m_name ex_handle))"
    "m_read_sem w = Some (snprintf_64 ''/qads_r_'' (m_name ex_handle))"
    by blast
  then have "CreateWriter ex_abi no_faults ex_handle ex_stale_kernel = (True, w, k') \<and>
      sems k' ''/qads_w_t1'' = Some 2 \<and> sems k' ''/qads_r_t1'' = Some 0 \<and>
      m_write_sem w = Some ''/qads_w_t1'' \<and> m_read_sem w = Some ''/qads_r_t1''"
    by (simp add: ex_handle_def)
  then have "\<exists>w k'. CreateWriter ex_abi no_faults ex_handle ex_stale_kernel = (True, w, k') \<and>
      sems k' ''/qads_w_t1'' = Some 2 \<and> sems k' ''/qads_r_t1'' = Some 0 \<and>
      m_write_sem w = Some ''/qads_w_t1'' \<and> m_read_sem w = Some ''/qads_r_t1''"
    by blast
  moreover have "sems ex_stale_kernel ''/qads_w_t1'' = Some 7"
    "sems ex_stale_kernel ''/qads_r_t1'' = Some 5"
    by (simp_all add: ex_stale_kernel_def)
  ultimately show ?thesis by blast
qed

text \<open>
  C2 (as the code has it). A consumer attach that has mapped a region of nonzero size fails,
  returning \<open>false\<close> and leaving the handle unattached, when the magic is not
  \<open>0x51444153\<close> or the version is not 1; the two cases are not told apart. With the magic and
  the version in place it succeeds as soon as the two semaphores open: the geometry fields
  are not cross-checked, \<open>buffer_count\<close> and \<open>buffer_size\<close> are copied from the header as they
  are and \<open>total_size\<close> is the size the OS reports.
\<close>

theorem consumer_attach_validation:
  assumes "\<not> m_is_attached a" and "shm k (shm_name a) = Some obj"
    and "\<not> shm_open_fails flt" and "\<not> fstat_fails flt" and "\<not> mmap_fails flt"
    and "st_size obj \<noteq> 0"
  shows "(magic (hdr obj) \<noteq> MAGIC_NUMBER \<or> version (hdr obj) \<noteq> VERSION \<longrightarrow>
            (\<exists>a'. AttachReader flt a k = Return (False, a', k) \<and> \<not> m_is_attached a' \<and>
                  m_write_sem a' = m_write_sem a \<and> m_read_sem a' = m_read_sem a)) \<and>
         (magic (hdr obj) = MAGIC_NUMBER \<and> version (hdr obj) = VERSION \<and>
          \<not> sem_open_write_fails flt \<and> \<not> sem_open_read_fails flt \<and>
          sems k (write_sem_name (hdr obj)) \<noteq> None \<and> sems k (read_sem_name (hdr obj)) \<noteq> None \<longrightarrow>
            (\<exists>a' k'. AttachReader flt a k = Return (True, a', k') \<and> m_is_attached a' \<and>
                  m_total_size a' = st_size obj \<and>
                  m_buffer_count a' = buffer_count (hdr obj) \<and>
                  m_buffer_size a' = buffer_size (hdr obj)))"
proof (intro conjI impI)
  assume "magic (hdr obj) \<noteq> MAGIC_NUMBER \<or> version (hdr obj) \<noteq> VERSION"
  from AttachReader_bad_header [OF assms this] assms(1)
  show "\<exists>a'. AttachReader flt a k = Return (False, a', k) \<and> \<not> m_is_attached a' \<and>
                  m_write_sem a' = m_write_sem a \<and> m_read_sem a' = m_read_sem a"
    by simp
next
  assume "magic (hdr obj) = MAGIC_NUMBER \<and> version (hdr obj) = VERSION \<and>
          \<not> sem_open_write_fails flt \<and> \<not> sem_open_read_fails flt \<and>
          sems k (write_sem_name (hdr obj)) \<noteq> None \<and> sems k (read_sem_name (hdr obj)) \<noteq> None"
  then have "AttachReader flt a k =
     Return (True,
       a\<lparr>m_shm_fd := Some (shm_name a), m_total_size := st_size obj,
         m_mapped_memory := MappedAt (shm_name a),
         m_buffer_count := buffer_count (hdr obj), m_buffer_size := buffer_size (hdr obj),
         m_is_writer := False, m_is_attached := True,
         m_write_sem := Some (write_sem_name (hdr obj)),
         m_read_sem := Some (read_sem_name (hdr obj))\<rparr>,
       k\<lparr>shm := (shm k)(shm_name a \<mapsto>
            obj\<lparr>hdr := (hdr obj)\<lparr>reader_count := reader_count (hdr obj) + 1\<rparr>\<rparr>)\<rparr>)"
    by (intro AttachReader_good_header assms) simp_all
  then show "\<exists>a' k'. AttachReader flt a k = Return (True, a', k') \<and> m_is_attached a' \<and>
                  m_total_size a' = st_size obj \<and>
                  m_buffer_count a' = buffer_count (hdr obj) \<and>
                  m_buffer_size a' = buffer_size (hdr obj)"
    by simp
qed

theorem consumer_attach_validation_witness:
  "(\<exists>a'. AttachReader no_faults ex_handle ex_bad_magic = Return (False, a', ex_bad_magic) \<and>
         \<not> m_is_attached a') \<and>
   (\<exists>a' k'. AttachReader no_faults ex_handle ex_created = Return (True, a', k') \<and>
         m_is_attached a' \<and> m_total_size a' = 2368 \<and> m_buffer_count a' = 2 \<and>
         m_buffer_size a' = 1024)"
proof -
  have f: "\<not> shm_open_fails no_faults" "\<not> fstat_fails no_faults" "\<not> mmap_fails no_faults"
    by (simp_all add: no_faults_def)
  have "shm ex_bad_magic (shm_name ex_handle) =
      Some \<lparr>st_size = 2368, hdr = (ex_header 0 0 0 ex_empty_slots)\<lparr>magic := 0\<rparr>, payload = (\<lambda>_. [])\<rparr>"
    by (simp add: ex_defs shm_name_def c_str_def)
  from consumer_attach_validation [OF _ this f, THEN conjunct1]
  obtain a' where "AttachReader no_faults ex_handle ex_bad_magic = Return (False, a', ex_bad_magic)"
    "\<not> m_is_attached a'"
    by (auto simp: ex_defs MAGIC_NUMBER_def shm_name_def c_str_def)
  moreover
  have "shm ex_created (shm_name ex_handle) =
      Some \<lparr>st_size = 2368, hdr = ex_header 0 0 0 ex_empty_slots, payload = (\<lambda>_. [])\<rparr>"
    by (simp add: ex_defs shm_name_def c_str_def)
  from consumer_attach_validation [OF _ this f, THEN conjunct2]
  obtain a'' k' where "AttachReader no_faults ex_handle ex_created = Return (True, a'', k')"
    "m_is_attached a''" "m_total_size a'' = 2368" "m_buffer_count a'' = 2"
    "m_buffer_size a'' = 1024"
    by (auto simp: ex_defs MAGIC_NUMBER_def VERSION_def no_faults_def shm_name_def c_str_def)
  ultimately show ?thesis by blast
qed

text \<open>
  The spec's cross-check is not in the code: the 64-byte region of \<open>ex_corrupt\<close>, whose
  header says \<open>total_size = 1\<close> and whose slots would end at byte 2368, is attached.
\<close>

theorem corrupt_geometry_accepted_counterexample:
  "map_option st_size (shm ex_corrupt ''/qads_t1'') = Some 64 \<and>
   map_option hdr (shm ex_corrupt ''/qads_t1'') = Some ex_corrupt_header \<and>
   total_size ex_corrupt_header \<noteq> 64 \<and>
   \<not> (unat (buffers_offset ex_corrupt_header) +
        unat (buffer_count ex_corrupt_header) * unat (buffer_size ex_corrupt_header)
        \<le> unat (total_size ex_corrupt_header)) \<and>
   AttachReader no_faults ex_handle ex_corrupt =
     Return (True, ex_consumer\<lparr>m_total_size := 64\<rparr>,
       store_header ''/qads_t1'' (ex_corrupt_header\<lparr>reader_count := 1\<rparr>) ex_corrupt)"
proof -
  have "AttachReader no_faults ex_handle ex_corrupt =
     Return (True, ex_consumer\<lparr>m_total_size := 64\<rparr>,
       store_header ''/qads_t1'' (ex_corrupt_header\<lparr>reader_count := 1\<rparr>) ex_corrupt)"
    by (subst AttachReader_no_faults
        [where obj = "\<lparr>st_size = 64, hdr = ex_corrupt_header, payload = (\<lambda>_. [])\<rparr>"])
      (simp_all add: ex_defs MAGIC_NUMBER_def VERSION_def shm_name_def c_str_def store_header_def)
  then show ?thesis by (simp add: ex_defs)
qed

lemma CreateWriter_zero_size:
  assumes "\<not> m_is_attached a" and "m_total_size a = 0"
  shows "\<exists>a'. CreateWriter L flt a k = (False, a', k) \<and> \<not> m_is_attached a'"
  using assms
  by (auto simp: CreateWriter_def CreateSharedMemory_def Let_def)

lemma AttachReader_zero_size:
  assumes "\<not> m_is_attached r" and "shm k (shm_name r) = Some obj" and "st_size obj = 0"
  shows "\<exists>r'. AttachReader flt r k = Return (False, r', k) \<and> \<not> m_is_attached r'"
  using assms
  by (auto simp: AttachReader_def AttachSharedMemory_def Let_def)

text \<open>
  C3 (as the code has it). An attach fails when the region size is 0, because a mapping of
  length 0 is refused. The size is not otherwise compared with the size of the header: the
  constructor computes the buffer size from \<open>total_size - header_size\<close> wrapped modulo
  \<open>2^64\<close> for every \<open>total_size\<close>, also one smaller than the header, a producer attach that
  succeeds writes that value into the header, and a consumer attach accepts a region of any
  nonzero size that carries the magic and the version.
\<close>

theorem attach_region_size:
  "(SharedMemoryArena_new L name sz bc = Some a \<longrightarrow>
      m_buffer_size a =
        ((sz - ((sizeof_SharedMemoryHeader L + sizeof_BufferState L * bc + 63) AND NOT 63)) div bc)
          AND NOT 63 \<and>
      unat (m_buffer_size a) =
        unat (sz - ((sizeof_SharedMemoryHeader L + sizeof_BufferState L * bc + 63) AND NOT 63))
          div unat bc div 64 * 64 \<and>
      (sz = 0 \<longrightarrow> (\<exists>a'. CreateWriter L flt a k = (False, a', k) \<and> \<not> m_is_attached a')) \<and>
      (\<forall>w k'. CreateWriter L flt a k = (True, w, k') \<longrightarrow>
         m_buffer_size w = m_buffer_size a \<and>
         map_option (buffer_size \<circ> hdr) (shm k' (shm_name a)) = Some (m_buffer_size a))) \<and>
   (\<not> m_is_attached r \<and> shm kq (shm_name r) = Some obj \<and> st_size obj = 0 \<longrightarrow>
      (\<exists>r'. AttachReader fltq r kq = Return (False, r', kq) \<and> \<not> m_is_attached r')) \<and>
   (\<not> m_is_attached r \<and> shm kq (shm_name r) = Some obj \<and> st_size obj \<noteq> 0 \<and>
    magic (hdr obj) = MAGIC_NUMBER \<and> version (hdr obj) = VERSION \<and>
    sems kq (write_sem_name (hdr obj)) \<noteq> None \<and> sems kq (read_sem_name (hdr obj)) \<noteq> None \<longrightarrow>
      (\<exists>r' k'. AttachReader no_faults r kq = Return (True, r', k') \<and> m_is_attached r' \<and>
         m_total_size r' = st_size obj))"
proof (intro conjI impI allI)
  assume a: "SharedMemoryArena_new L name sz bc = Some a"
  note n = new_fields [OF a]
  show b: "m_buffer_size a =
        ((sz - ((sizeof_SharedMemoryHeader L + sizeof_BufferState L * bc + 63) AND NOT 63)) div bc)
          AND NOT 63"
    by (rule n(5))
  show "unat (m_buffer_size a) =
        unat (sz - ((sizeof_SharedMemoryHeader L + sizeof_BufferState L * bc + 63) AND NOT 63))
          div unat bc div 64 * 64"
    unfolding b and_not_63 by (simp add: unat_div)
  {
    assume "sz = 0"
    with n show "\<exists>a'. CreateWriter L flt a k = (False, a', k) \<and> \<not> m_is_attached a'"
      by (intro CreateWriter_zero_size) simp_all
  }
  {
    fix w k'
    assume c: "CreateWriter L flt a k = (True, w, k')"
    note t = CreateWriter_True [OF c]
    show "m_buffer_size w = m_buffer_size a" unfolding t(5) by simp
    show "map_option (buffer_size \<circ> hdr) (shm k' (shm_name a)) = Some (m_buffer_size a)"
      unfolding t(6) by simp
  }
next
  assume "\<not> m_is_attached r \<and> shm kq (shm_name r) = Some obj \<and> st_size obj = 0"
  then show "\<exists>r'. AttachReader fltq r kq = Return (False, r', kq) \<and> \<not> m_is_attached r'"
    by (intro AttachReader_zero_size [where obj = obj]) simp_all
next
  assume h: "\<not> m_is_attached r \<and> shm kq (shm_name r) = Some obj \<and> st_size obj \<noteq> 0 \<and>
    magic (hdr obj) = MAGIC_NUMBER \<and> version (hdr obj) = VERSION \<and>
    sems kq (write_sem_name (hdr obj)) \<noteq> None \<and> sems kq (read_sem_name (hdr obj)) \<noteq> None"
  then have "AttachReader no_faults r kq =
     Return (True,
       r\<lparr>m_shm_fd := Some (shm_name r), m_total_size := st_size obj,
         m_mapped_memory := MappedAt (shm_name r),
         m_buffer_count := buffer_count (hdr obj), m_buffer_size := buffer_size (hdr obj),
         m_is_writer := False, m_is_attached := True,
         m_write_sem := Some (write_sem_name (hdr obj)),
         m_read_sem := Some (read_sem_name (hdr obj))\<rparr>,
       kq\<lparr>shm := (shm kq)(shm_name r \<mapsto>
            obj\<lparr>hdr := (hdr obj)\<lparr>reader_count := reader_count (hdr obj) + 1\<rparr>\<rparr>)\<rparr>)"
    by (intro AttachReader_no_faults) simp_all
  then show "\<exists>r' k'. AttachReader no_faults r kq = Return (True, r', k') \<and> m_is_attached r' \<and>
       m_total_size r' = st_size obj"
    by simp
qed

theorem attach_region_size_witness:
  "SharedMemoryArena_new ex_abi ''t1'' 64 2 = Some ex_small_handle \<and>
   m_buffer_size ex_small_handle = 9223372036854775680 \<and>
   unat (m_buffer_size ex_small_handle) = unat (64 - 320 :: u64) div 2 div 64 * 64 \<and>
   map_option (buffer_size \<circ> hdr)
     (shm (snd (snd (CreateWriter ex_abi no_faults ex_small_handle ex_kernel))) ''/qads_t1'') =
     Some 9223372036854775680 \<and>
   (\<exists>a a'. SharedMemoryArena_new ex_abi ''t1'' 0 2 = Some a \<and>
      CreateWriter ex_abi no_faults a ex_kernel = (False, a', ex_kernel) \<and> \<not> m_is_attached a') \<and>
   (\<exists>r'. AttachReader no_faults ex_handle
            \<lparr>shm = [''/qads_t1'' \<mapsto> zero_object 0], sems = Map.empty\<rparr> =
          Return (False, r', \<lparr>shm = [''/qads_t1'' \<mapsto> zero_object 0], sems = Map.empty\<rparr>) \<and>
        \<not> m_is_attached r') \<and>
   (\<exists>r' k'. AttachReader no_faults ex_handle ex_corrupt = Return (True, r', k') \<and>
       m_is_attached r' \<and> m_total_size r' = 64)"
proof -
  note t = attach_region_size [where L = ex_abi and name = "''t1''" and sz = 64 and bc = 2
      and a = ex_small_handle and flt = no_faults and k = ex_kernel, THEN conjunct1, THEN mp,
      OF ex_new_small]
  have 1: "m_buffer_size ex_small_handle = 9223372036854775680"
    "unat (m_buffer_size ex_small_handle) = unat (64 - 320 :: u64) div 2 div 64 * 64"
    using t [THEN conjunct1] t [THEN conjunct2, THEN conjunct1] by (simp_all add: ex_abi_def)
  have 2: "map_option (buffer_size \<circ> hdr)
     (shm (snd (snd (CreateWriter ex_abi no_faults ex_small_handle ex_kernel))) ''/qads_t1'') =
     Some 9223372036854775680"
    using t [THEN conjunct2, THEN conjunct2, THEN conjunct2, rule_format, OF ex_create_small] 1(1)
    by (simp add: ex_create_small)
  obtain a where a: "SharedMemoryArena_new ex_abi ''t1'' 0 2 = Some a"
    by (simp add: SharedMemoryArena_new_def Let_def)
  from attach_region_size [where L = ex_abi and name = "''t1''" and sz = 0 and bc = 2
      and a = a and flt = no_faults and k = ex_kernel, THEN conjunct1, THEN mp, OF a,
      THEN conjunct2, THEN conjunct2, THEN conjunct1]
  have 3: "\<exists>a'. CreateWriter ex_abi no_faults a ex_kernel = (False, a', ex_kernel) \<and> \<not> m_is_attached a'"
    by simp
  let ?k = "\<lparr>shm = [''/qads_t1'' \<mapsto> zero_object 0], sems = Map.empty\<rparr>"
  from attach_region_size [where r = ex_handle and kq = ?k and obj = "zero_object 0"
      and fltq = no_faults, THEN conjunct2, THEN conjunct1]
  have 4: "\<exists>r'. AttachReader no_faults ex_handle ?k = Return (False, r', ?k) \<and> \<not> m_is_attached r'"
    by (simp add: ex_defs shm_name_def c_str_def zero_object_def)
  from attach_region_size [where r = ex_handle and kq = ex_corrupt
      and obj = "\<lparr>st_size = 64, hdr = ex_corrupt_header, payload = (\<lambda>_. [])\<rparr>",
      THEN conjunct2, THEN conjunct2]
  obtain r' kk where 5: "AttachReader no_faults ex_handle ex_corrupt = Return (True, r', kk)"
    "m_is_attached r'" "m_total_size r' = 64"
    by (auto simp: ex_defs MAGIC_NUMBER_def VERSION_def shm_name_def c_str_def)
  from ex_new_small 1 2 a 3 4 5 show ?thesis by blast
qed

text \<open>
  The spec's size check is not in the code: with \<open>total_size = 64\<close>, less than the 290 bytes
  of header and slot states, the producer attach succeeds and the header holds a buffer
  size of \<open>2^63 - 128\<close> bytes.
\<close>

theorem small_region_attach_counterexample:
  "SharedMemoryArena_new ex_abi ''t1'' 64 2 = Some ex_small_handle \<and>
   unat (m_total_size ex_small_handle) <
     unat (sizeof_SharedMemoryHeader ex_abi) + 2 * unat (sizeof_BufferState ex_abi) \<and>
   m_buffer_size ex_small_handle = 9223372036854775680 \<and>
   fst (CreateWriter ex_abi no_faults ex_small_handle ex_kernel) \<and>
   m_is_attached (fst (snd (CreateWriter ex_abi no_faults ex_small_handle ex_kernel))) \<and>
   map_option (buffer_size \<circ> hdr)
     (shm (snd (snd (CreateWriter ex_abi no_faults ex_small_handle ex_kernel))) ''/qads_t1'') =
     Some 9223372036854775680"
  unfolding ex_create_small using ex_new_small by (simp add: ex_defs)

section \<open>Consumers whose calls overlap\<close>

text \<open>
  The steps of a consume, run with nothing in between, are the call: \<open>ReadRecordBatch\<close> is
  \<open>ReadRecordBatch_enter\<close> followed by at most six steps.
\<close>

lemma run_call_body:
  "run_call 6 rd (Running LoadIndex, a, k) = ReadRecordBatch_body rd a k"
proof (cases "m_mapped_memory a")
  case (MappedAt nm)
  show ?thesis
  proof (cases "shm k nm")
    case None
    with MappedAt show ?thesis
      by (simp add: eval_nat_numeral ReadRecordBatch_step_def ReadRecordBatch_body_def)
  next
    case (Some obj)
    show ?thesis
    proof (cases "m_buffer_count a = 0")
      case True
      with MappedAt Some show ?thesis
        by (simp add: eval_nat_numeral ReadRecordBatch_step_def ReadRecordBatch_body_def
            GetCurrentReadBuffer_def)
    next
      case False
      show ?thesis
      proof (cases "ready (buffer_states (hdr obj) (read_sequence (hdr obj) mod m_buffer_count a))")
        case False
        with MappedAt Some \<open>m_buffer_count a \<noteq> 0\<close> show ?thesis
          by (simp add: eval_nat_numeral ReadRecordBatch_step_def ReadRecordBatch_body_def
              GetCurrentReadBuffer_def split: option.split)
      next
        case True
        with MappedAt Some \<open>m_buffer_count a \<noteq> 0\<close> show ?thesis
          by (simp add: eval_nat_numeral ReadRecordBatch_step_def ReadRecordBatch_body_def
              GetCurrentReadBuffer_def store_header_def sem_post_def Let_def
              split: option.split sum.split)
      qed
    qed
  qed
qed (simp_all add: eval_nat_numeral ReadRecordBatch_step_def ReadRecordBatch_body_def)

lemma ReadRecordBatch_steps:
  "ReadRecordBatch rd intr timeout_ms a k =
     (case ReadRecordBatch_enter intr timeout_ms a k of
        Return s \<Rightarrow> run_call 6 rd s
      | Block \<Rightarrow> Block
      | Trap \<Rightarrow> Trap)"
  by (simp add: ReadRecordBatch_def ReadRecordBatch_enter_def run_call_body
      split: outcome.split wait_result.split prod.split)

lemma ex_attach_second:
  "AttachReader no_faults ex_handle ex_attached = Return (True, ex_consumer, ex_two_attached)"
  by (subst AttachReader_no_faults
        [where obj = "\<lparr>st_size = 2368, hdr = ex_header 0 0 1 ex_empty_slots, payload = (\<lambda>_. [])\<rparr>"])
    (simp_all add: ex_defs ex_two_attached_def MAGIC_NUMBER_def VERSION_def shm_name_def c_str_def)

text \<open>
  C7. The difference of the two counters is not bounded by \<open>buffer_count\<close> when the calls
  of two consumers overlap. On the ring of two slots, after the schedule \<open>ex_overlap\<close>:
  consumer 0 has returned the first batch; consumer 1 found slot 0 not ready, posted a free
  token and returned \<open>IOError "Buffer not ready"\<close>; the second batch, never read, has been
  overwritten in slot 1 by the fourth; \<open>write_sequence\<close> is 4 and \<open>read_sequence\<close> is 1, a
  difference of 3 on a ring of 2 slots.
\<close>

theorem overlapping_consumers_exceed_buffer_count:
  "SharedMemoryArena_new ex_abi ''t1'' 2368 2 = Some ex_handle \<and>
   CreateWriter ex_abi no_faults ex_handle ex_kernel = (True, ex_producer, ex_created) \<and>
   AttachReader no_faults ex_handle ex_created = Return (True, ex_consumer, ex_attached) \<and>
   AttachReader no_faults ex_handle ex_attached = Return (True, ex_consumer, ex_two_attached) \<and>
   (\<exists>s obj.
      schedule_run ex_ipc_writer ex_ipc_reader ex_overlap ex_two_consumers = Some s \<and>
      produced s = [Status OK [], Status OK [], Status OK [], Status OK []] \<and>
      map results (consumers s) = [[Inr [0xFF, 1]], [Inl (Status IOError ''Buffer not ready'')]] \<and>
      map call (consumers s) = [None, None] \<and>
      shm (kern s) ''/qads_t1'' = Some obj \<and>
      payload obj 320 = [0xFF, 3] \<and> payload obj 1344 = [0xFF, 4] \<and>
      buffer_count (hdr obj) = 2 \<and>
      write_sequence (hdr obj) = 4 \<and> read_sequence (hdr obj) = 1 \<and>
      \<not> write_sequence (hdr obj) - read_sequence (hdr obj) \<le> buffer_count (hdr obj) \<and>
      \<not> unat (write_sequence (hdr obj)) - unat (read_sequence (hdr obj))
          \<le> unat (buffer_count (hdr obj)))"
proof -
  have "\<exists>s obj.
      schedule_run ex_ipc_writer ex_ipc_reader ex_overlap ex_two_consumers = Some s \<and>
      produced s = [Status OK [], Status OK [], Status OK [], Status OK []] \<and>
      map results (consumers s) = [[Inr [0xFF, 1]], [Inl (Status IOError ''Buffer not ready'')]] \<and>
      map call (consumers s) = [None, None] \<and>
      shm (kern s) ''/qads_t1'' = Some obj \<and>
      payload obj 320 = [0xFF, 3] \<and> payload obj 1344 = [0xFF, 4] \<and>
      buffer_count (hdr obj) = 2 \<and>
      write_sequence (hdr obj) = 4 \<and> read_sequence (hdr obj) = 1 \<and>
      \<not> write_sequence (hdr obj) - read_sequence (hdr obj) \<le> buffer_count (hdr obj) \<and>
      \<not> unat (write_sequence (hdr obj)) - unat (read_sequence (hdr obj))
          \<le> unat (buffer_count (hdr obj))"
    by (simp add: ex_overlap_def ex_two_consumers_def ex_two_attached_def ex_defs
        schedule_step_def progress_consumer_def
        WriteRecordBatch_def WriteRecordBatch_body_def ReadRecordBatch_enter_def
        ReadRecordBatch_step_def sem_wait_def sem_timedwait_def sem_post_def SEM_VALUE_MAX_def
        GetNextWriteBuffer_def GetCurrentReadBuffer_def SerializeRecordBatch_def
        DeserializeRecordBatch_def store_header_def store_payload_def
        ex_ipc_writer_def ex_ipc_reader_def Let_def)
  with ex_new ex_create ex_attach ex_attach_second show ?thesis by blast
qed

end
